theory Spec2Isabelle
  imports Complex_Main "HOL-Library.Multiset"
begin

section \<open>JavaScript numbers\<close>

text \<open>
  A number is a finite double, given by the rational it denotes (the two zeros are one
  value), an infinity or NaN. A \<^verbatim>\<open>Float\<close> column holds such a number.
\<close>

datatype number = Num rat | PosInf | NegInf | NaN

text \<open>The number of binary digits of a natural number.\<close>

fun bitlen :: "nat \<Rightarrow> nat" where
  "bitlen n = (if n = 0 then 0 else Suc (bitlen (n div 2)))"

declare bitlen.simps [simp del]

text \<open>For a positive \<open>x\<close>, the exponent \<open>e\<close> with \<open>2 ^ e \<le> x < 2 ^ (e + 1)\<close>.\<close>

definition exponent :: "rat \<Rightarrow> int" where
  "exponent x =
     (case quotient_of x of
        (p, q) \<Rightarrow>
          (let e = int (bitlen (nat p)) - int (bitlen (nat q))
           in if 2 powi e \<le> x then e else e - 1))"

definition round_half_even :: "rat \<Rightarrow> int" where
  "round_half_even r =
     (let f = floor r; t = r - of_int f
      in if t < 1 / 2 then f else if 1 / 2 < t then f + 1 else if even f then f else f + 1)"

text \<open>
  The double nearest to a real result, ties to even (IEEE 754 binary64: 53 significant
  bits, exponents from -1022 to 1023, gradual underflow, overflow to an infinity). Every
  arithmetic operation on finite doubles returns the exact result rounded in this way.
\<close>

definition to_double :: "rat \<Rightarrow> number" where
  "to_double x =
     (if x = 0 then Num 0
      else let e = max (exponent \<bar>x\<bar>) (- 1022);
               ulp = 2 powi (e - 52);
               y = of_int (round_half_even (x / ulp)) * ulp
           in if 2 powi 1024 \<le> y then PosInf
              else if y \<le> - (2 powi 1024) then NegInf
              else Num y)"

fun js_neg :: "number \<Rightarrow> number" where
  "js_neg (Num x) = Num (- x)"
| "js_neg PosInf = NegInf"
| "js_neg NegInf = PosInf"
| "js_neg NaN = NaN"

fun js_add :: "number \<Rightarrow> number \<Rightarrow> number" where
  "js_add (Num x) (Num y) = to_double (x + y)"
| "js_add NaN b = NaN"
| "js_add a NaN = NaN"
| "js_add PosInf NegInf = NaN"
| "js_add NegInf PosInf = NaN"
| "js_add PosInf b = PosInf"
| "js_add NegInf b = NegInf"
| "js_add a PosInf = PosInf"
| "js_add a NegInf = NegInf"

definition js_sub :: "number \<Rightarrow> number \<Rightarrow> number" where
  "js_sub a b = js_add a (js_neg b)"

fun js_mul :: "number \<Rightarrow> number \<Rightarrow> number" where
  "js_mul (Num x) (Num y) = to_double (x * y)"
| "js_mul NaN b = NaN"
| "js_mul a NaN = NaN"
| "js_mul (Num x) b = (if x = 0 then NaN else if 0 < x then b else js_neg b)"
| "js_mul a (Num y) = (if y = 0 then NaN else if 0 < y then a else js_neg a)"
| "js_mul PosInf b = b"
| "js_mul NegInf b = js_neg b"

text \<open>Division; a zero divisor is the positive zero.\<close>

fun js_div :: "number \<Rightarrow> number \<Rightarrow> number" where
  "js_div (Num x) (Num y) =
     (if y = 0 then (if x = 0 then NaN else if 0 < x then PosInf else NegInf)
      else to_double (x / y))"
| "js_div NaN b = NaN"
| "js_div a NaN = NaN"
| "js_div (Num x) b = Num 0"
| "js_div a (Num y) = (if 0 \<le> y then a else js_neg a)"
| "js_div a b = NaN"

text \<open>\<^verbatim>\<open>Math.round\<close>: the nearest integer, halves upwards.\<close>

fun Math_round :: "number \<Rightarrow> number" where
  "Math_round (Num x) = Num (of_int (floor (x + 1 / 2)))"
| "Math_round a = a"

text \<open>\<^verbatim>\<open>a !== b\<close> on numbers: NaN differs from every number, itself included.\<close>

definition strict_neq :: "number \<Rightarrow> number \<Rightarrow> bool" where
  "strict_neq a b = (a = NaN \<or> b = NaN \<or> a \<noteq> b)"

text \<open>\<^verbatim>\<open>x || y\<close> on a number that may be missing: zero and NaN are falsy.\<close>

definition number_or :: "number option \<Rightarrow> number \<Rightarrow> number" where
  "number_or v y =
     (case v of None \<Rightarrow> y | Some x \<Rightarrow> if x = Num 0 \<or> x = NaN then y else x)"

section \<open>The relational schema (prisma/schema.prisma)\<close>

text \<open>
  Identifiers are the strings of the schema (\<^verbatim>\<open>String @id @default(cuid())\<close>); a
  \<^verbatim>\<open>DateTime\<close> is the number of milliseconds since the epoch, as \<^verbatim>\<open>Date.getTime()\<close>
  reads it. Every model of the schema that the services write is a record, and a table is
  the list of its rows in insertion order. The \<^verbatim>\<open>updatedAt\<close> columns and the columns no
  service sets (the processed image URLs, the aura variation URLs, \<^verbatim>\<open>OTP.userId\<close>) are
  left out. An \<^verbatim>\<open>Int\<close> column holds a 32-bit integer: the client refuses a value
  outside that range.

  A call of a service method runs its awaits one after the other on the database.
  \<^verbatim>\<open>unlikeAura\<close> writes a value computed from an earlier read, so its update is also a
  step of its own, which may run on a later database than the one that was read.
\<close>

type_synonym ident = string
type_synonym datetime = int

record User =
  u_id :: ident
  u_firstName :: string
  u_lastName :: string
  u_phoneNumber :: string
  u_birthday :: datetime
  u_isVerified :: bool
  u_profilePictureUrl :: "string option"
  u_profilePublicId :: "string option"

record OTP =
  otp_id :: ident
  otp_phoneNumber :: string
  otp_code :: string
  otp_expiresAt :: datetime
  otp_isUsed :: bool
  otp_createdAt :: datetime

record Image =
  img_id :: ident
  img_originalUrl :: string
  img_publicId :: string
  img_fileName :: string
  img_fileSize :: int
  img_mimeType :: string
  img_width :: "int option"
  img_height :: "int option"
  img_isProcessed :: bool
  img_processingStatus :: string
  img_userId :: ident
  img_createdAt :: datetime

record Aura =
  aura_id :: ident
  aura_title :: string
  aura_description :: string
  aura_mood :: "string option"
  aura_colors :: "string list"
  aura_keywords :: "string list"
  aura_confidence :: "number option"
  aura_likes :: int
  aura_shares :: int
  aura_imageId :: ident
  aura_userId :: ident

record Follow =
  fol_id :: ident
  fol_followerId :: ident
  fol_followingId :: ident
  fol_createdAt :: datetime

record db =
  users :: "User list"
  otps :: "OTP list"
  images :: "Image list"
  auras :: "Aura list"
  follows :: "Follow list"

definition empty_db :: db where
  "empty_db = \<lparr>users = [], otps = [], images = [], auras = [], follows = []\<rparr>"

datatype exception =
    BadRequestException string
  | UnauthorizedException string
  | ConflictException string
  | NotFoundException string
  | PrismaError string
  | Error string

text \<open>The range of an \<^verbatim>\<open>Int\<close> column.\<close>

definition int4 :: "int \<Rightarrow> bool" where
  "int4 n = (- 2147483648 \<le> n \<and> n \<le> 2147483647)"

fun message :: "exception \<Rightarrow> string" where
  "message (BadRequestException m) = m"
| "message (UnauthorizedException m) = m"
| "message (ConflictException m) = m"
| "message (NotFoundException m) = m"
| "message (PrismaError m) = m"
| "message (Error m) = m"

section \<open>The client calls on the OTP table\<close>

text \<open>
  \<^verbatim>\<open>create\<close> is refused when the primary key is taken (the only constraint the schema puts
  on the table); \<^verbatim>\<open>findFirst\<close> returns the first row that satisfies the filter;
  \<^verbatim>\<open>update\<close> by id rewrites the rows of that id; \<^verbatim>\<open>deleteMany\<close> removes the rows that
  satisfy the filter and returns their number.
\<close>

definition otp_create :: "OTP \<Rightarrow> db \<Rightarrow> exception + db" where
  "otp_create row d =
     (if otp_id row \<in> set (map otp_id (otps d))
      then Inl (PrismaError ''Unique constraint failed on the fields: (`id`)'')
      else Inr (d\<lparr>otps := otps d @ [row]\<rparr>))"

definition otp_findFirst :: "(OTP \<Rightarrow> bool) \<Rightarrow> db \<Rightarrow> OTP option" where
  "otp_findFirst P d = find P (otps d)"

definition otp_update_isUsed :: "ident \<Rightarrow> bool \<Rightarrow> db \<Rightarrow> db" where
  "otp_update_isUsed i b d =
     d\<lparr>otps := map (\<lambda>r. if otp_id r = i then r\<lparr>otp_isUsed := b\<rparr> else r) (otps d)\<rparr>"

definition otp_deleteMany :: "(OTP \<Rightarrow> bool) \<Rightarrow> db \<Rightarrow> nat \<times> db" where
  "otp_deleteMany P d =
     (length (filter P (otps d)), d\<lparr>otps := filter (\<lambda>r. \<not> P r) (otps d)\<rparr>)"

section \<open>The client calls on the User table\<close>

text \<open>
  \<^verbatim>\<open>findUnique\<close> reads by a unique column. \<^verbatim>\<open>create\<close> is refused when the primary key or
  the phone number (\<^verbatim>\<open>phoneNumber String @unique\<close>) is taken.
\<close>

definition user_findUnique_id :: "ident \<Rightarrow> db \<Rightarrow> User option" where
  "user_findUnique_id i d = find (\<lambda>u. u_id u = i) (users d)"

definition user_findUnique_phoneNumber :: "string \<Rightarrow> db \<Rightarrow> User option" where
  "user_findUnique_phoneNumber p d = find (\<lambda>u. u_phoneNumber u = p) (users d)"

definition user_create :: "User \<Rightarrow> db \<Rightarrow> exception + db" where
  "user_create row d =
     (if u_id row \<in> set (map u_id (users d))
      then Inl (PrismaError ''Unique constraint failed on the fields: (`id`)'')
      else if u_phoneNumber row \<in> set (map u_phoneNumber (users d))
      then Inl (PrismaError ''Unique constraint failed on the fields: (`phoneNumber`)'')
      else Inr (d\<lparr>users := users d @ [row]\<rparr>))"

definition user_update_profilePictureUrl :: "ident \<Rightarrow> string \<Rightarrow> db \<Rightarrow> db" where
  "user_update_profilePictureUrl i url d =
     d\<lparr>users := map (\<lambda>u. if u_id u = i then u\<lparr>u_profilePictureUrl := Some url\<rparr> else u)
                    (users d)\<rparr>"

section \<open>AuthService (src/auth/auth.service.ts)\<close>

text \<open>
  The configuration (the unnamed configuration factory) holds the node environment and
  the Twilio settings. The Twilio client is the library's: a call of
  \<^verbatim>\<open>messages.create\<close> with a body, a sender and a recipient either resolves or throws an
  error with a message and a code (empty when absent). Console output is not modelled.
\<close>

record config =
  nodeEnv :: string
  twilio_accountSid :: "string option"
  twilio_authToken :: "string option"
  twilio_phoneNumber :: "string option"

record twilio_error =
  te_message :: string
  te_code :: string

type_synonym twilio_client = "string \<Rightarrow> string option \<Rightarrow> string \<Rightarrow> twilio_error + unit"

text \<open>
  The constructor keeps a client only for credentials that look valid (both present and
  non-empty, the account SID starting with \<^verbatim>\<open>AC\<close>, the token longer than 10 characters) and
  when the library's factory does not throw.
\<close>

definition AuthService_twilioClient ::
  "config \<Rightarrow> (string \<Rightarrow> string \<Rightarrow> exception + twilio_client) \<Rightarrow> twilio_client option" where
  "AuthService_twilioClient cfg twilio =
     (case (twilio_accountSid cfg, twilio_authToken cfg) of
        (Some accountSid, Some authToken) \<Rightarrow>
          if accountSid \<noteq> [] \<and> authToken \<noteq> [] \<and> take 2 accountSid = ''AC''
             \<and> length authToken > 10
          then (case twilio accountSid authToken of Inl _ \<Rightarrow> None | Inr c \<Rightarrow> Some c)
          else None
      | _ \<Rightarrow> None)"

text \<open>\<^verbatim>\<open>Number.prototype.toString\<close> on an integer: its decimal digits.\<close>

fun decimal :: "nat \<Rightarrow> string" where
  "decimal n = (if n < 10 then [''0123456789'' ! n]
                else decimal (n div 10) @ [''0123456789'' ! (n mod 10)])"

declare decimal.simps [simp del]

definition toString :: "int \<Rightarrow> string" where
  "toString i = (if i < 0 then CHR ''-'' # decimal (nat (- i)) else decimal (nat i))"

record sendOtp_response =
  so_message :: string
  so_code :: "string option"

text \<open>
  \<^verbatim>\<open>sendOtp\<close>: \<open>random\<close> is the value of \<^verbatim>\<open>Math.random()\<close>, \<open>cuid\<close> the identifier the
  client generates for the new row, \<open>now\<close> the clock (\<^verbatim>\<open>Date.now()\<close>, also the row's
  \<^verbatim>\<open>createdAt\<close> default). The result pairs what the call returns or throws with the
  database it leaves.
\<close>

definition sendOtp ::
  "config \<Rightarrow> twilio_client option \<Rightarrow> rat \<Rightarrow> ident \<Rightarrow> datetime \<Rightarrow> string \<Rightarrow> db
     \<Rightarrow> (exception + sendOtp_response) \<times> db" where
  "sendOtp cfg twilioClient random cuid now phoneNumber d =
     (let code = toString (floor (100000 + random * 900000));
          expiresAt = now + 10 * 60 * 1000
      in case otp_create \<lparr>otp_id = cuid, otp_phoneNumber = phoneNumber, otp_code = code,
                          otp_expiresAt = expiresAt, otp_isUsed = False, otp_createdAt = now\<rparr> d of
           Inl e \<Rightarrow> (Inl e, d)
         | Inr d1 \<Rightarrow>
             (let sent = (Inr \<lparr>so_message = ''OTP sent successfully'',
                               so_code = (if nodeEnv cfg = ''development'' then Some code else None)\<rparr>,
                          d1)
              in case twilioClient of
                   Some client \<Rightarrow>
                     (case client (''Your Aura verification code is: '' @ code)
                                  (twilio_phoneNumber cfg) phoneNumber of
                        Inr _ \<Rightarrow> sent
                      | Inl error \<Rightarrow>
                          if nodeEnv cfg = ''production''
                          then (Inl (BadRequestException (''Failed to send OTP: '' @
                                  (if te_message error \<noteq> [] then te_message error
                                   else if te_code error \<noteq> [] then te_code error
                                   else ''Unknown error''))), d1)
                          else sent)
                 | None \<Rightarrow> sent))"

record user_view =
  uv_id :: ident
  uv_firstName :: string
  uv_lastName :: string
  uv_phoneNumber :: string
  uv_birthday :: datetime
  uv_isVerified :: bool
  uv_profilePictureUrl :: string

datatype verifyOtp_response =
    ExistingUser string user_view
  | NewUser string string

definition alphanumeric :: string where
  "alphanumeric = ''abcdefghijklmnopqrstuvwxyzABCDEFGHIJKLMNOPQRSTUVWXYZ0123456789''"

definition dicebear :: "string \<Rightarrow> string" where
  "dicebear phoneNumber =
     ''https://api.dicebear.com/9.x/fun-emoji/svg?seed='' @
     filter (\<lambda>c. c \<in> set alphanumeric) phoneNumber @
     ''&size=400&radius=50&backgroundColor=b6e3f4,c0aede,d1d4f9,ffd5dc,ffdfbf''"

text \<open>
  \<^verbatim>\<open>verifyOtp\<close>: \<open>sign\<close> is \<^verbatim>\<open>jwtService.sign\<close> on the payload (subject, phone number),
  \<open>now\<close> is \<^verbatim>\<open>new Date()\<close>. The update by id follows a read of that row, so it finds it.
\<close>

definition verifyOtp ::
  "(ident \<Rightarrow> string \<Rightarrow> string) \<Rightarrow> datetime \<Rightarrow> string \<Rightarrow> string \<Rightarrow> db
     \<Rightarrow> (exception + verifyOtp_response) \<times> db" where
  "verifyOtp sign now phoneNumber code d =
     (case otp_findFirst (\<lambda>r. otp_phoneNumber r = phoneNumber \<and> otp_code r = code
                               \<and> otp_isUsed r = False \<and> otp_expiresAt r > now) d of
        None \<Rightarrow> (Inl (UnauthorizedException ''Invalid or expired OTP''), d)
      | Some otp \<Rightarrow>
          (let d1 = otp_update_isUsed (otp_id otp) True d
           in case user_findUnique_phoneNumber phoneNumber d1 of
                Some existingUser \<Rightarrow>
                  (let accessToken = sign (u_id existingUser) (u_phoneNumber existingUser);
                       missing = (case u_profilePictureUrl existingUser of
                                    None \<Rightarrow> True | Some url \<Rightarrow> url = []);
                       profilePictureUrl =
                         (if missing then dicebear phoneNumber
                          else the (u_profilePictureUrl existingUser));
                       d2 = (if missing
                             then user_update_profilePictureUrl (u_id existingUser)
                                    profilePictureUrl d1
                             else d1)
                   in (Inr (ExistingUser accessToken
                         \<lparr>uv_id = u_id existingUser,
                          uv_firstName = u_firstName existingUser,
                          uv_lastName = u_lastName existingUser,
                          uv_phoneNumber = u_phoneNumber existingUser,
                          uv_birthday = u_birthday existingUser,
                          uv_isVerified = u_isVerified existingUser,
                          uv_profilePictureUrl = profilePictureUrl\<rparr>), d2))
              | None \<Rightarrow>
                  (Inr (NewUser ''OTP verified. Please complete registration.'' phoneNumber),
                   d1)))"

text \<open>
  The filter of \<^verbatim>\<open>verifyOtp\<close>'s \<^verbatim>\<open>findFirst\<close>, named: the row has the phone number and
  the code, is not used, and expires strictly after \<open>now\<close>.
\<close>

definition otp_accepted :: "datetime \<Rightarrow> string \<Rightarrow> string \<Rightarrow> OTP \<Rightarrow> bool" where
  "otp_accepted now p c r =
     (otp_phoneNumber r = p \<and> otp_code r = c \<and> otp_isUsed r = False \<and> otp_expiresAt r > now)"

section \<open>OtpCleanupService (src/auth/otp-cleanup.service.ts)\<close>

record cleanup_result =
  verifiedOtpsDeleted :: nat
  expiredUnusedOtpsDeleted :: nat
  totalDeleted :: nat

definition performCleanup :: "datetime \<Rightarrow> db \<Rightarrow> cleanup_result \<times> db" where
  "performCleanup now d =
     (let thirtyMinutesAgo = now - 30 * 60 * 1000;
          (verified, d1) = otp_deleteMany (\<lambda>r. otp_isUsed r) d;
          (expiredUnused, d2) =
             otp_deleteMany (\<lambda>r. \<not> otp_isUsed r \<and> otp_createdAt r < thirtyMinutesAgo) d1;
          total = verified + expiredUnused
      in (\<lparr>verifiedOtpsDeleted = verified, expiredUnusedOtpsDeleted = expiredUnused,
           totalDeleted = total\<rparr>, d2))"

text \<open>
  The scheduled variant runs the same two deletions inside a \<^verbatim>\<open>try\<close>, returns nothing
  and writes the three counts to the log; the model returns the logged counts.
\<close>

definition cleanupOtps :: "datetime \<Rightarrow> db \<Rightarrow> (nat \<times> nat \<times> nat) \<times> db" where
  "cleanupOtps now d =
     (let thirtyMinutesAgo = now - 30 * 60 * 1000;
          (verified, d1) = otp_deleteMany (\<lambda>r. otp_isUsed r) d;
          (expiredUnused, d2) =
             otp_deleteMany (\<lambda>r. \<not> otp_isUsed r \<and> otp_createdAt r < thirtyMinutesAgo) d1
      in ((verified, expiredUnused, verified + expiredUnused), d2))"

section \<open>The client calls on the Follow and Aura tables\<close>

text \<open>
  A Follow row is refused when its primary key or its pair
  (\<^verbatim>\<open>@@unique([followerId, followingId])\<close>) is taken, or when either end is not the id of a
  user (the two relations to User). \<^verbatim>\<open>delete\<close> by the pair throws when no row has it.
\<close>

definition follow_findUnique :: "ident \<Rightarrow> ident \<Rightarrow> db \<Rightarrow> Follow option" where
  "follow_findUnique followerId followingId d =
     find (\<lambda>f. fol_followerId f = followerId \<and> fol_followingId f = followingId) (follows d)"

definition follow_create :: "Follow \<Rightarrow> db \<Rightarrow> exception + db" where
  "follow_create row d =
     (if fol_id row \<in> set (map fol_id (follows d))
      then Inl (PrismaError ''Unique constraint failed on the fields: (`id`)'')
      else if (fol_followerId row, fol_followingId row)
                \<in> set (map (\<lambda>f. (fol_followerId f, fol_followingId f)) (follows d))
      then Inl (PrismaError
             ''Unique constraint failed on the fields: (`followerId`,`followingId`)'')
      else if fol_followerId row \<notin> set (map u_id (users d))
      then Inl (PrismaError ''Foreign key constraint failed on the field: `followerId`'')
      else if fol_followingId row \<notin> set (map u_id (users d))
      then Inl (PrismaError ''Foreign key constraint failed on the field: `followingId`'')
      else Inr (d\<lparr>follows := follows d @ [row]\<rparr>))"

definition follow_delete :: "ident \<Rightarrow> ident \<Rightarrow> db \<Rightarrow> exception + db" where
  "follow_delete followerId followingId d =
     (case follow_findUnique followerId followingId d of
        None \<Rightarrow> Inl (PrismaError ''Record to delete does not exist.'')
      | Some _ \<Rightarrow>
          Inr (d\<lparr>follows := filter (\<lambda>f. \<not> (fol_followerId f = followerId
                                            \<and> fol_followingId f = followingId)) (follows d)\<rparr>))"

text \<open>
  \<^verbatim>\<open>aura.update\<close> by id with \<^verbatim>\<open>increment\<close> (\<^verbatim>\<open>decrement\<close> is an increment by the
  negated amount) throws when no row has the id and when the new value leaves the range of
  the column; otherwise it rewrites the rows of that id and returns the updated row.
\<close>

definition aura_findUnique :: "ident \<Rightarrow> db \<Rightarrow> Aura option" where
  "aura_findUnique i d = find (\<lambda>a. aura_id a = i) (auras d)"

definition aura_update_likes :: "ident \<Rightarrow> int \<Rightarrow> db \<Rightarrow> exception + Aura \<times> db" where
  "aura_update_likes i n d =
     (case aura_findUnique i d of
        None \<Rightarrow> Inl (PrismaError ''Record to update not found.'')
      | Some a \<Rightarrow>
          if \<not> int4 (aura_likes a + n)
          then Inl (PrismaError ''Value out of range for the type'')
          else Inr (a\<lparr>aura_likes := aura_likes a + n\<rparr>,
                    d\<lparr>auras := map (\<lambda>x. if aura_id x = i
                                         then x\<lparr>aura_likes := aura_likes x + n\<rparr> else x)
                                   (auras d)\<rparr>))"

definition aura_update_shares :: "ident \<Rightarrow> int \<Rightarrow> db \<Rightarrow> exception + Aura \<times> db" where
  "aura_update_shares i n d =
     (case aura_findUnique i d of
        None \<Rightarrow> Inl (PrismaError ''Record to update not found.'')
      | Some a \<Rightarrow>
          if \<not> int4 (aura_shares a + n)
          then Inl (PrismaError ''Value out of range for the type'')
          else Inr (a\<lparr>aura_shares := aura_shares a + n\<rparr>,
                    d\<lparr>auras := map (\<lambda>x. if aura_id x = i
                                         then x\<lparr>aura_shares := aura_shares x + n\<rparr> else x)
                                   (auras d)\<rparr>))"

section \<open>SocialService: follow, like, share (src/social/social.service.ts)\<close>

record follow_response =
  fr_message :: string
  fr_following :: bool

text \<open>\<open>cuid\<close> is the id generated for the new Follow row, \<open>now\<close> its \<^verbatim>\<open>createdAt\<close>.\<close>

definition followUser ::
  "ident \<Rightarrow> datetime \<Rightarrow> ident \<Rightarrow> ident \<Rightarrow> db \<Rightarrow> (exception + follow_response) \<times> db" where
  "followUser cuid now followerId followingId d =
     (if followerId = followingId
      then (Inl (BadRequestException ''You cannot follow yourself''), d)
      else case user_findUnique_id followingId d of
             None \<Rightarrow> (Inl (NotFoundException ''User not found''), d)
           | Some userToFollow \<Rightarrow>
               (case follow_findUnique followerId followingId d of
                  Some existingFollow \<Rightarrow>
                    (Inl (ConflictException ''Already following this user''), d)
                | None \<Rightarrow>
                    (case follow_create \<lparr>fol_id = cuid, fol_followerId = followerId,
                                          fol_followingId = followingId,
                                          fol_createdAt = now\<rparr> d of
                       Inl e \<Rightarrow> (Inl e, d)
                     | Inr d1 \<Rightarrow>
                         (Inr \<lparr>fr_message = ''User followed successfully'',
                               fr_following = True\<rparr>, d1))))"

definition unfollowUser ::
  "ident \<Rightarrow> ident \<Rightarrow> db \<Rightarrow> (exception + follow_response) \<times> db" where
  "unfollowUser followerId followingId d =
     (case follow_findUnique followerId followingId d of
        None \<Rightarrow> (Inl (NotFoundException ''You are not following this user''), d)
      | Some existingFollow \<Rightarrow>
          (case follow_delete followerId followingId d of
             Inl e \<Rightarrow> (Inl e, d)
           | Inr d1 \<Rightarrow>
               (Inr \<lparr>fr_message = ''User unfollowed successfully'',
                     fr_following = False\<rparr>, d1)))"

record like_response =
  lr_message :: string
  lr_liked :: bool
  lr_totalLikes :: int

record share_response =
  sr_message :: string
  sr_totalShares :: int

definition likeAura :: "ident \<Rightarrow> ident \<Rightarrow> db \<Rightarrow> (exception + like_response) \<times> db" where
  "likeAura userId auraId d =
     (case aura_findUnique auraId d of
        None \<Rightarrow> (Inl (NotFoundException ''Aura not found''), d)
      | Some aura \<Rightarrow>
          (case aura_update_likes auraId 1 d of
             Inl e \<Rightarrow> (Inl e, d)
           | Inr (updatedAura, d1) \<Rightarrow>
               (Inr \<lparr>lr_message = ''Aura liked successfully'', lr_liked = True,
                     lr_totalLikes = aura_likes updatedAura\<rparr>, d1)))"

text \<open>
  \<^verbatim>\<open>unlikeAura\<close> in its two awaits. The first reads the aura; the second decrements by 1
  when the row that was read has a positive count and by 0 otherwise.
\<close>

definition unlikeAura_update :: "Aura \<Rightarrow> ident \<Rightarrow> db \<Rightarrow> (exception + like_response) \<times> db" where
  "unlikeAura_update aura auraId d =
     (case aura_update_likes auraId (- (if aura_likes aura > 0 then 1 else 0)) d of
        Inl e \<Rightarrow> (Inl e, d)
      | Inr (updatedAura, d1) \<Rightarrow>
          (Inr \<lparr>lr_message = ''Aura unliked successfully'', lr_liked = False,
                lr_totalLikes = aura_likes updatedAura\<rparr>, d1))"

definition unlikeAura :: "ident \<Rightarrow> ident \<Rightarrow> db \<Rightarrow> (exception + like_response) \<times> db" where
  "unlikeAura userId auraId d =
     (case aura_findUnique auraId d of
        None \<Rightarrow> (Inl (NotFoundException ''Aura not found''), d)
      | Some aura \<Rightarrow> unlikeAura_update aura auraId d)"

definition shareAura :: "ident \<Rightarrow> ident \<Rightarrow> db \<Rightarrow> (exception + share_response) \<times> db" where
  "shareAura userId auraId d =
     (case aura_findUnique auraId d of
        None \<Rightarrow> (Inl (NotFoundException ''Aura not found''), d)
      | Some aura \<Rightarrow>
          (case aura_update_shares auraId 1 d of
             Inl e \<Rightarrow> (Inl e, d)
           | Inr (updatedAura, d1) \<Rightarrow>
               (Inr \<lparr>sr_message = ''Aura shared successfully'',
                     sr_totalShares = aura_shares updatedAura\<rparr>, d1)))"

text \<open>The follow relation of a database: the set of its (follower, following) pairs.\<close>

definition follow_relation :: "db \<Rightarrow> (ident \<times> ident) set" where
  "follow_relation d = set (map (\<lambda>f. (fol_followerId f, fol_followingId f)) (follows d))"

section \<open>The client calls on the Image table and the creation of an Aura\<close>

text \<open>
  An Image row is refused when one of its \<^verbatim>\<open>Int\<close> values is out of range, when its
  primary key is taken or when its \<^verbatim>\<open>userId\<close> is not the id of a user. An Aura row is
  refused when one of its \<^verbatim>\<open>Int\<close> values is out of range, when its primary key or its image
  (\<^verbatim>\<open>imageId String @unique\<close>) is taken, or when its image or its user does not exist.
  Deleting an image deletes the auras of that image (\<^verbatim>\<open>onDelete: Cascade\<close>).
\<close>

definition image_create :: "Image \<Rightarrow> db \<Rightarrow> exception + db" where
  "image_create row d =
     (if \<not> (int4 (img_fileSize row)
             \<and> (case img_width row of None \<Rightarrow> True | Some w \<Rightarrow> int4 w)
             \<and> (case img_height row of None \<Rightarrow> True | Some h \<Rightarrow> int4 h))
      then Inl (PrismaError ''Value out of range for the type'')
      else if img_id row \<in> set (map img_id (images d))
      then Inl (PrismaError ''Unique constraint failed on the fields: (`id`)'')
      else if img_userId row \<notin> set (map u_id (users d))
      then Inl (PrismaError ''Foreign key constraint failed on the field: `userId`'')
      else Inr (d\<lparr>images := images d @ [row]\<rparr>))"

definition image_findFirst :: "(Image \<Rightarrow> bool) \<Rightarrow> db \<Rightarrow> Image option" where
  "image_findFirst P d = find P (images d)"

definition image_delete :: "ident \<Rightarrow> db \<Rightarrow> exception + db" where
  "image_delete i d =
     (case find (\<lambda>x. img_id x = i) (images d) of
        None \<Rightarrow> Inl (PrismaError ''Record to delete does not exist.'')
      | Some _ \<Rightarrow>
          Inr (d\<lparr>images := filter (\<lambda>x. img_id x \<noteq> i) (images d),
                 auras := filter (\<lambda>a. aura_imageId a \<noteq> i) (auras d)\<rparr>))"

definition aura_create :: "Aura \<Rightarrow> db \<Rightarrow> exception + db" where
  "aura_create row d =
     (if \<not> (int4 (aura_likes row) \<and> int4 (aura_shares row))
      then Inl (PrismaError ''Value out of range for the type'')
      else if aura_id row \<in> set (map aura_id (auras d))
      then Inl (PrismaError ''Unique constraint failed on the fields: (`id`)'')
      else if aura_imageId row \<in> set (map aura_imageId (auras d))
      then Inl (PrismaError ''Unique constraint failed on the fields: (`imageId`)'')
      else if aura_imageId row \<notin> set (map img_id (images d))
      then Inl (PrismaError ''Foreign key constraint failed on the field: `imageId`'')
      else if aura_userId row \<notin> set (map u_id (users d))
      then Inl (PrismaError ''Foreign key constraint failed on the field: `userId`'')
      else Inr (d\<lparr>auras := auras d @ [row]\<rparr>))"

section \<open>GeminiService.generateAuraFromBuffer (src/gemini/gemini.service.ts)\<close>

text \<open>
  \<open>genAI\<close> is the configured client, if any: its \<^verbatim>\<open>generateContent\<close> on the image bytes
  and MIME type (with the fixed prompt) resolves with a text or rejects with a message.
  \<open>parse\<close> stands for the clean-up of the text followed by \<^verbatim>\<open>JSON.parse\<close>: it gives the
  fields the service reads, or the message of the error thrown.
\<close>

record gemini_json =
  gj_title :: "string option"
  gj_description :: "string option"
  gj_mood :: "string option"
  gj_keywords :: "string list option"
  gj_confidence :: "number option"

record ai_aura =
  ai_title :: string
  ai_description :: string
  ai_mood :: string
  ai_keywords :: "string list"
  ai_confidence :: number

type_synonym gemini_client = "nat list \<Rightarrow> string \<Rightarrow> string + string"

definition falsy :: "string option \<Rightarrow> bool" where
  "falsy v = (case v of None \<Rightarrow> True | Some s \<Rightarrow> s = [])"

definition generateAuraFromBuffer ::
  "gemini_client option \<Rightarrow> (string \<Rightarrow> string + gemini_json) \<Rightarrow> nat list \<Rightarrow> string
     \<Rightarrow> exception + ai_aura" where
  "generateAuraFromBuffer genAI parse imageBuffer mimeType =
     (case genAI of
        None \<Rightarrow> Inl (BadRequestException
          ''Gemini AI is not configured. Please check GEMINI_API_KEY environment variable.'')
      | Some generateContent \<Rightarrow>
          (case generateContent imageBuffer mimeType of
             Inl msg \<Rightarrow> Inl (BadRequestException (''Gemini AI analysis failed: '' @ msg))
           | Inr text \<Rightarrow>
               (case parse text of
                  Inl msg \<Rightarrow>
                    Inl (BadRequestException (''Gemini returned invalid response format: '' @ msg))
                | Inr parsed \<Rightarrow>
                    if falsy (gj_title parsed) \<or> falsy (gj_description parsed)
                       \<or> falsy (gj_mood parsed)
                    then Inl (BadRequestException (''Gemini returned invalid response format: ''
                                @ ''Invalid response structure from Gemini''))
                    else Inr \<lparr>ai_title = the (gj_title parsed),
                              ai_description = the (gj_description parsed),
                              ai_mood = the (gj_mood parsed),
                              ai_keywords = (case gj_keywords parsed of
                                               None \<Rightarrow> [] | Some ks \<Rightarrow> ks),
                              ai_confidence =
                                number_or (gj_confidence parsed) (Num (3 / 4))\<rparr>)))"

section \<open>CloudinaryService (src/cloudinary/cloudinary.service.ts)\<close>

text \<open>
  \<open>uploader\<close> is \<^verbatim>\<open>cloudinary.uploader.upload\<close> on the bytes and the public id: it resolves
  with a result or rejects. \<^verbatim>\<open>deleteImage\<close> swallows every error and touches no table, so
  it has no counterpart here.
\<close>

record File =
  f_buffer :: "nat list"
  f_originalname :: string
  f_mimetype :: string
  f_size :: int

record upload_api_result =
  secure_url :: string
  public_id :: string
  api_width :: int
  api_height :: int

type_synonym cloudinary_uploader = "nat list \<Rightarrow> string \<Rightarrow> string + upload_api_result"

record cloudinary_image =
  ci_originalUrl :: string
  ci_publicId :: string
  ci_width :: int
  ci_height :: int

definition cleanFilename :: "string \<Rightarrow> string" where
  "cleanFilename filename =
     map (\<lambda>c. if c \<in> set (alphanumeric @ ''._-'') then c else CHR ''_'') filename"

definition CloudinaryService_uploadImage ::
  "string \<Rightarrow> cloudinary_uploader \<Rightarrow> datetime \<Rightarrow> nat list \<Rightarrow> string \<Rightarrow> ident
     \<Rightarrow> exception + cloudinary_image" where
  "CloudinaryService_uploadImage folder uploader timestamp buffer filename userId =
     (let publicId = folder @ ''/users/'' @ userId @ ''/'' @ toString timestamp @ ''_''
                       @ cleanFilename filename
      in case uploader buffer publicId of
           Inl error \<Rightarrow> Inl (BadRequestException ''Failed to upload image'')
         | Inr result \<Rightarrow>
             Inr \<lparr>ci_originalUrl = secure_url result, ci_publicId = public_id result,
                  ci_width = api_width result, ci_height = api_height result\<rparr>)"

definition CloudinaryService_uploadProfilePicture ::
  "string \<Rightarrow> cloudinary_uploader \<Rightarrow> datetime \<Rightarrow> File \<Rightarrow> exception + upload_api_result" where
  "CloudinaryService_uploadProfilePicture folder uploader timestamp file =
     (let publicId = folder @ ''/profile_pictures/'' @ toString timestamp @ ''_''
                       @ cleanFilename (f_originalname file)
      in case uploader (f_buffer file) publicId of
           Inl error \<Rightarrow> Inl (BadRequestException ''Failed to upload profile picture'')
         | Inr result \<Rightarrow> Inr result)"

section \<open>ImagesService (src/images/images.service.ts)\<close>

text \<open>\<^verbatim>\<open>String.prototype.includes\<close>: the second string occurs in the first.\<close>

fun str_includes :: "string \<Rightarrow> string \<Rightarrow> bool" where
  "str_includes [] sub = (sub = [])"
| "str_includes (c # cs) sub = (take (length sub) (c # cs) = sub \<or> str_includes cs sub)"

text \<open>The \<^verbatim>\<open>catch\<close> of \<^verbatim>\<open>uploadImage\<close>: every error becomes a \<^verbatim>\<open>BadRequestException\<close>.\<close>

definition processing_failed :: "exception \<Rightarrow> exception" where
  "processing_failed error =
     (if str_includes (message error) ''Gemini'' \<or> str_includes (message error) ''AI''
      then BadRequestException (''AI aura analysis failed: '' @ message error)
      else BadRequestException (''Failed to process image: '' @ message error))"

record upload_config =
  upload_allowedMimeTypes :: "string list"
  upload_maxFileSize :: int
  cloudinary_folder :: string

text \<open>The four awaited steps, recorded when they are started.\<close>

datatype step = GeminiAnalysis | CloudinaryUpload | ImageCreate | AuraCreate

record upload_response =
  ur_id :: ident
  ur_originalUrl :: string
  ur_publicId :: string
  ur_fileName :: string
  ur_fileSize :: int
  ur_mimeType :: string
  ur_width :: int
  ur_height :: int
  ur_aura :: Aura

text \<open>
  The collaborators of an upload: the Gemini client and parser, the Cloudinary uploader,
  the ids generated for the two rows, the clock at the upload and at the insertion.
\<close>

record upload_env =
  env_genAI :: "gemini_client option"
  env_parse :: "string \<Rightarrow> string + gemini_json"
  env_uploader :: cloudinary_uploader
  env_imageCuid :: ident
  env_auraCuid :: ident
  env_timestamp :: datetime
  env_createdAt :: datetime

definition uploadImage ::
  "upload_config \<Rightarrow> upload_env \<Rightarrow> File option \<Rightarrow> ident \<Rightarrow> db
     \<Rightarrow> (exception + upload_response) \<times> db \<times> step list" where
  "uploadImage cfg env file userId d =
     (case file of
        None \<Rightarrow> (Inl (BadRequestException ''No file provided''), d, [])
      | Some f \<Rightarrow>
          if f_mimetype f \<notin> set (upload_allowedMimeTypes cfg)
          then (Inl (BadRequestException
                  ''Invalid file type. Only JPEG, PNG, WebP are allowed''), d, [])
          else if f_size f > upload_maxFileSize cfg
          then (Inl (BadRequestException (''File size exceeds ''
                  @ toString (upload_maxFileSize cfg) @ '' bytes'')), d, [])
          else
            (case generateAuraFromBuffer (env_genAI env) (env_parse env)
                    (f_buffer f) (f_mimetype f) of
               Inl error \<Rightarrow> (Inl (processing_failed error), d, [GeminiAnalysis])
             | Inr aiAura \<Rightarrow>
                 (case CloudinaryService_uploadImage (cloudinary_folder cfg) (env_uploader env)
                         (env_timestamp env) (f_buffer f) (f_originalname f) userId of
                    Inl error \<Rightarrow>
                      (Inl (processing_failed error), d, [GeminiAnalysis, CloudinaryUpload])
                  | Inr uploadResult \<Rightarrow>
                      (let newImage = \<lparr>img_id = env_imageCuid env,
                                     img_originalUrl = ci_originalUrl uploadResult,
                                     img_publicId = ci_publicId uploadResult,
                                     img_fileName = f_originalname f,
                                     img_fileSize = f_size f,
                                     img_mimeType = f_mimetype f,
                                     img_width = Some (ci_width uploadResult),
                                     img_height = Some (ci_height uploadResult),
                                     img_isProcessed = True,
                                     img_processingStatus = ''completed'',
                                     img_userId = userId,
                                     img_createdAt = env_createdAt env\<rparr>
                       in case image_create newImage d of
                            Inl error \<Rightarrow>
                              (Inl (processing_failed error), d,
                               [GeminiAnalysis, CloudinaryUpload, ImageCreate])
                          | Inr d1 \<Rightarrow>
                              (let aura = \<lparr>aura_id = env_auraCuid env,
                                            aura_title = ai_title aiAura,
                                            aura_description = ai_description aiAura,
                                            aura_mood = Some (ai_mood aiAura),
                                            aura_colors = [],
                                            aura_keywords = ai_keywords aiAura,
                                            aura_confidence = Some (ai_confidence aiAura),
                                            aura_likes = 0,
                                            aura_shares = 0,
                                            aura_imageId = img_id newImage,
                                            aura_userId = userId\<rparr>
                               in case aura_create aura d1 of
                                    Inl error \<Rightarrow>
                                      (Inl (processing_failed error), d1,
                                       [GeminiAnalysis, CloudinaryUpload, ImageCreate,
                                        AuraCreate])
                                  | Inr d2 \<Rightarrow>
                                      (Inr \<lparr>ur_id = img_id newImage,
                                            ur_originalUrl = img_originalUrl newImage,
                                            ur_publicId = img_publicId newImage,
                                            ur_fileName = img_fileName newImage,
                                            ur_fileSize = img_fileSize newImage,
                                            ur_mimeType = img_mimeType newImage,
                                            ur_width = (case img_width newImage of
                                                          None \<Rightarrow> 0 | Some w \<Rightarrow> w),
                                            ur_height = (case img_height newImage of
                                                           None \<Rightarrow> 0 | Some h \<Rightarrow> h),
                                            ur_aura = aura\<rparr>, d2,
                                       [GeminiAnalysis, CloudinaryUpload, ImageCreate,
                                        AuraCreate]))))))"

definition deleteImage :: "ident \<Rightarrow> ident \<Rightarrow> db \<Rightarrow> (exception + unit) \<times> db" where
  "deleteImage imageId userId d =
     (case image_findFirst (\<lambda>x. img_id x = imageId \<and> img_userId x = userId) d of
        None \<Rightarrow> (Inl (NotFoundException ''Image not found''), d)
      | Some found \<Rightarrow>
          (case image_delete imageId d of
             Inl e \<Rightarrow> (Inl e, d)
           | Inr d1 \<Rightarrow> (Inr (), d1)))"

text \<open>
  The test endpoint of the images controller creates the fixed test user when it is
  missing and then uploads for it; an error of the creation is wrapped, the upload's
  own errors are returned as they are.
\<close>

definition testUploadImage ::
  "upload_config \<Rightarrow> upload_env \<Rightarrow> File option \<Rightarrow> db
     \<Rightarrow> (exception + upload_response) \<times> db \<times> step list" where
  "testUploadImage cfg env file d =
     (case user_findUnique_id ''test-user-123'' d of
        Some testUser \<Rightarrow> uploadImage cfg env file ''test-user-123'' d
      | None \<Rightarrow>
          (case user_create \<lparr>u_id = ''test-user-123'', u_firstName = ''Test'',
                              u_lastName = ''User'', u_phoneNumber = ''+1234567890'',
                              u_birthday = 631152000000, u_isVerified = True,
                              u_profilePictureUrl = None, u_profilePublicId = None\<rparr> d of
             Inl error \<Rightarrow>
               (Inl (BadRequestException (''Test upload failed: '' @ message error)), d, [])
           | Inr d1 \<Rightarrow> uploadImage cfg env file ''test-user-123'' d1))"

section \<open>AuthService.register\<close>

record RegisterUserDto =
  dto_firstName :: string
  dto_lastName :: string
  dto_phoneNumber :: string
  dto_birthday :: datetime

record register_response =
  rr_accessToken :: string
  rr_user :: user_view

text \<open>
  \<open>cuid\<close> is the id generated for the user row; the birthday of the DTO is already the
  date \<^verbatim>\<open>new Date(birthday)\<close> denotes.
\<close>

definition register ::
  "string \<Rightarrow> cloudinary_uploader \<Rightarrow> (ident \<Rightarrow> string \<Rightarrow> string) \<Rightarrow> ident \<Rightarrow> datetime
     \<Rightarrow> RegisterUserDto \<Rightarrow> File option \<Rightarrow> db \<Rightarrow> (exception + register_response) \<times> db" where
  "register folder uploader sign cuid timestamp dto profilePicture d =
     (case user_findUnique_phoneNumber (dto_phoneNumber dto) d of
        Some existingUser \<Rightarrow> (Inl (ConflictException ''User already exists''), d)
      | None \<Rightarrow>
          (let uploaded =
                 (case profilePicture of
                    None \<Rightarrow> (None, None)
                  | Some file \<Rightarrow>
                      (case CloudinaryService_uploadProfilePicture folder uploader timestamp
                              file of
                         Inl error \<Rightarrow> (None, None)
                       | Inr uploadResult \<Rightarrow>
                           (Some (secure_url uploadResult), Some (public_id uploadResult))));
               profilePictureUrl =
                 (if falsy (fst uploaded) then dicebear (dto_phoneNumber dto)
                  else the (fst uploaded))
           in case user_create \<lparr>u_id = cuid, u_firstName = dto_firstName dto,
                                u_lastName = dto_lastName dto,
                                u_phoneNumber = dto_phoneNumber dto,
                                u_birthday = dto_birthday dto, u_isVerified = True,
                                u_profilePictureUrl = Some profilePictureUrl,
                                u_profilePublicId = snd uploaded\<rparr> d of
                Inl e \<Rightarrow> (Inl e, d)
              | Inr d1 \<Rightarrow>
                  (Inr \<lparr>rr_accessToken = sign cuid (dto_phoneNumber dto),
                        rr_user = \<lparr>uv_id = cuid, uv_firstName = dto_firstName dto,
                                    uv_lastName = dto_lastName dto,
                                    uv_phoneNumber = dto_phoneNumber dto,
                                    uv_birthday = dto_birthday dto, uv_isVerified = True,
                                    uv_profilePictureUrl = profilePictureUrl\<rparr>\<rparr>, d1)))"

section \<open>GeminiService.fetchImageAsBase64 (src/gemini/gemini.service.ts)\<close>

text \<open>
  What one pass through the \<^verbatim>\<open>try\<close> block meets: the import or the fetch rejects (with a
  message); the response is not \<^verbatim>\<open>ok\<close> (status text and status); reading the body
  rejects; or the body arrives as bytes. \<open>fetch url attempt\<close> is what the \<open>attempt\<close>-th
  request meets, \<open>base64\<close> is \<^verbatim>\<open>Buffer.toString('base64')\<close>. The events record the
  requests made and the sleeps taken, in order.
\<close>

datatype fetch_outcome =
    FetchThrows string
  | NotOk string string
  | BufferThrows string
  | Body "nat list"

datatype io_event = Fetch string nat | Sleep int

definition maxRetries :: nat where
  "maxRetries = 3"

definition delayMs :: int where
  "delayMs = 2000"

definition after_all_retries :: "string \<Rightarrow> exception" where
  "after_all_retries msg =
     BadRequestException (''Failed to fetch image for analysis after ''
        @ toString (int maxRetries) @ '' attempts: '' @ msg)"

text \<open>
  The \<^verbatim>\<open>for\<close> loop from \<open>attempt\<close> on. The result is what the function throws (\<open>Inl\<close>),
  the string it returns (\<open>Inr (Some s)\<close>), or \<open>Inr None\<close> when the loop ends without a
  \<^verbatim>\<open>return\<close> (the function then returns \<^verbatim>\<open>undefined\<close>).
\<close>

function fetchLoop ::
  "(string \<Rightarrow> nat \<Rightarrow> fetch_outcome) \<Rightarrow> (nat list \<Rightarrow> string) \<Rightarrow> string \<Rightarrow> nat
     \<Rightarrow> (exception + string option) \<times> io_event list" where
  "fetchLoop fetch base64 imageUrl attempt =
     (if attempt \<le> maxRetries then
        (let retry = (\<lambda>u::unit. case fetchLoop fetch base64 imageUrl (attempt + 1) of
                         (r, evs) \<Rightarrow> (r, Fetch imageUrl attempt # Sleep delayMs # evs));
             catch = (\<lambda>msg. if attempt < maxRetries then retry ()
                             else (Inl (after_all_retries msg), [Fetch imageUrl attempt]))
         in case fetch imageUrl attempt of
              FetchThrows msg \<Rightarrow> catch msg
            | NotOk statusText status \<Rightarrow>
                if attempt < maxRetries then retry ()
                else catch (''Failed to fetch image: '' @ statusText @ '' ('' @ status @ '')'')
            | BufferThrows msg \<Rightarrow> catch msg
            | Body buffer \<Rightarrow>
                if length buffer < 100 then catch ''Received invalid or empty image data''
                else (Inr (Some (base64 buffer)), [Fetch imageUrl attempt]))
      else (Inr None, []))"
  by pat_completeness auto
termination
  by (relation "measure (\<lambda>(fetch, base64, imageUrl, attempt). maxRetries + 1 - attempt)") auto

declare fetchLoop.simps [simp del]

definition fetchImageAsBase64 ::
  "(string \<Rightarrow> nat \<Rightarrow> fetch_outcome) \<Rightarrow> (nat list \<Rightarrow> string) \<Rightarrow> string
     \<Rightarrow> (exception + string option) \<times> io_event list" where
  "fetchImageAsBase64 fetch base64 imageUrl = fetchLoop fetch base64 imageUrl 1"

text \<open>An attempt succeeds when the body arrives with at least 100 bytes.\<close>

fun attempt_ok :: "fetch_outcome \<Rightarrow> bool" where
  "attempt_ok (Body buffer) = (\<not> length buffer < 100)"
| "attempt_ok _ = False"

fun is_Fetch :: "io_event \<Rightarrow> bool" where
  "is_Fetch (Fetch _ _) = True"
| "is_Fetch (Sleep _) = False"

text \<open>The message of the error a failed attempt raises inside the \<^verbatim>\<open>try\<close> block.\<close>

fun failure_message :: "fetch_outcome \<Rightarrow> string" where
  "failure_message (FetchThrows msg) = msg"
| "failure_message (NotOk statusText status) =
     ''Failed to fetch image: '' @ statusText @ '' ('' @ status @ '')''"
| "failure_message (BufferThrows msg) = msg"
| "failure_message (Body buffer) = ''Received invalid or empty image data''"

fun body_of :: "fetch_outcome \<Rightarrow> nat list" where
  "body_of (Body buffer) = buffer"
| "body_of _ = []"

section \<open>SocialService.getLeaderboard (src/social/social.service.ts)\<close>

text \<open>
  A user as \<^verbatim>\<open>user.findMany\<close> returns it: the selected columns, the user's images (for
  each, \<open>None\<close> when the image has no aura, else the aura's confidence, itself possibly
  null) and the number of followers. The list \<open>usersWithStats\<close> the query returns is an
  argument of the model: the query has no \<^verbatim>\<open>orderBy\<close>, so its order is the database's.
\<close>

record fetched_user =
  fu_id :: ident
  fu_firstName :: string
  fu_lastName :: string
  fu_profilePictureUrl :: "string option"
  fu_images :: "number option option list"
  fu_followers :: nat

record user_summary =
  us_id :: ident
  us_firstName :: string
  us_lastName :: string
  us_profilePictureUrl :: "string option"

record leaderboard_stats =
  totalScans :: nat
  totalConfidence :: number
  averageConfidence :: number
  followers :: nat

record leaderboard_entry =
  le_user :: user_summary
  le_stats :: leaderboard_stats

record ranked_entry =
  rank :: nat
  re_user :: user_summary
  re_stats :: leaderboard_stats

text \<open>\<^verbatim>\<open>image.aura?.confidence || 0\<close>\<close>

definition confidence_or_zero :: "number option option \<Rightarrow> number" where
  "confidence_or_zero i = (case i of None \<Rightarrow> Num 0 | Some c \<Rightarrow> number_or c (Num 0))"

text \<open>\<^verbatim>\<open>Math.round(x * 100) / 100\<close>\<close>

definition round2 :: "number \<Rightarrow> number" where
  "round2 x = js_div (Math_round (js_mul x (Num 100))) (Num 100)"

definition user_stats :: "fetched_user \<Rightarrow> leaderboard_entry" where
  "user_stats user =
     (let scans = length (fu_images user);
          total = foldl (\<lambda>sum i. js_add sum (confidence_or_zero i)) (Num 0) (fu_images user);
          average = (if scans > 0 then js_div total (Num (of_nat scans)) else Num 0)
      in \<lparr>le_user = \<lparr>us_id = fu_id user, us_firstName = fu_firstName user,
                       us_lastName = fu_lastName user,
                       us_profilePictureUrl = fu_profilePictureUrl user\<rparr>,
           le_stats = \<lparr>totalScans = scans, totalConfidence = round2 total,
                        averageConfidence = round2 average,
                        followers = fu_followers user\<rparr>\<rparr>)"

text \<open>
  The comparator handed to \<^verbatim>\<open>sort\<close>: negative when \<open>a\<close> goes first. The difference of
  two scan counts is exact.
\<close>

definition compare :: "leaderboard_entry \<Rightarrow> leaderboard_entry \<Rightarrow> number" where
  "compare a b =
     (if strict_neq (totalConfidence (le_stats b)) (totalConfidence (le_stats a))
      then js_sub (totalConfidence (le_stats b)) (totalConfidence (le_stats a))
      else if strict_neq (averageConfidence (le_stats b)) (averageConfidence (le_stats a))
      then js_sub (averageConfidence (le_stats b)) (averageConfidence (le_stats a))
      else Num (of_int (int (totalScans (le_stats b)) - int (totalScans (le_stats a)))))"

text \<open>
  \<^verbatim>\<open>Array.prototype.sort\<close> is stable and reads a comparator result that is NaN as 0. An
  element stays in front of another unless the comparator's result for the two is
  positive. The result is computed here by stable insertion: an element goes in front of
  the first element it does not have to follow.
\<close>

fun not_positive :: "number \<Rightarrow> bool" where
  "not_positive (Num v) = (v \<le> 0)"
| "not_positive PosInf = False"
| "not_positive NegInf = True"
| "not_positive NaN = True"

fun insert_by :: "('a \<Rightarrow> 'a \<Rightarrow> number) \<Rightarrow> 'a \<Rightarrow> 'a list \<Rightarrow> 'a list" where
  "insert_by cmp x [] = [x]"
| "insert_by cmp x (y # ys) =
     (if not_positive (cmp x y) then x # y # ys else y # insert_by cmp x ys)"

definition sort_by :: "('a \<Rightarrow> 'a \<Rightarrow> number) \<Rightarrow> 'a list \<Rightarrow> 'a list" where
  "sort_by cmp xs = foldr (insert_by cmp) xs []"

definition rankedUsers :: "fetched_user list \<Rightarrow> ranked_entry list" where
  "rankedUsers usersWithStats =
     map (\<lambda>(index, user). \<lparr>rank = index + 1, re_user = le_user user,
                             re_stats = le_stats user\<rparr>)
       (enumerate 0
          (sort_by compare
             (filter (\<lambda>user. totalScans (le_stats user) > 0)
                (map user_stats usersWithStats))))"

record leaderboard =
  topTen :: "ranked_entry list"
  currentUser :: "nat \<times> user_summary option \<times> leaderboard_stats"
  followingRankings :: "ranked_entry list"
  totalUsers :: nat

definition getLeaderboard :: "ident \<Rightarrow> fetched_user list \<Rightarrow> db \<Rightarrow> leaderboard" where
  "getLeaderboard currentUserId usersWithStats d =
     (let ranked = rankedUsers usersWithStats;
          followingIds = map fol_followingId
                           (filter (\<lambda>f. fol_followerId f = currentUserId) (follows d))
      in \<lparr>topTen = take 10 ranked,
           currentUser =
             (case find (\<lambda>user. us_id (re_user user) = currentUserId) ranked of
                Some r \<Rightarrow> (rank r, Some (re_user r), re_stats r)
              | None \<Rightarrow>
                  (length ranked + 1,
                   map_option (\<lambda>u. \<lparr>us_id = u_id u, us_firstName = u_firstName u,
                                     us_lastName = u_lastName u,
                                     us_profilePictureUrl = u_profilePictureUrl u\<rparr>)
                     (user_findUnique_id currentUserId d),
                   \<lparr>totalScans = 0, totalConfidence = Num 0, averageConfidence = Num 0,
                    followers = length (filter (\<lambda>f. fol_followingId f = currentUserId)
                                          (follows d))\<rparr>)),
           followingRankings =
             sort_by (\<lambda>a b. Num (of_int (int (rank a) - int (rank b))))
               (filter (\<lambda>user. us_id (re_user user) \<in> set followingIds) ranked),
           totalUsers = length ranked\<rparr>)"

text \<open>
  The order on numbers (NaN is not comparable), and the order of the ranking: \<open>a\<close> may
  stand before \<open>b\<close> when \<open>a\<close> has the larger rounded total confidence, or the same and
  the larger rounded average, or both the same and at least as many scans. The sort key
  of an entry is the triple of these three values.
\<close>

fun num_less :: "number \<Rightarrow> number \<Rightarrow> bool" where
  "num_less (Num x) (Num y) = (x < y)"
| "num_less NegInf (Num y) = True"
| "num_less NegInf PosInf = True"
| "num_less (Num x) PosInf = True"
| "num_less a b = False"

definition ranks_before :: "leaderboard_entry \<Rightarrow> leaderboard_entry \<Rightarrow> bool" where
  "ranks_before a b =
     (num_less (totalConfidence (le_stats b)) (totalConfidence (le_stats a))
      \<or> (totalConfidence (le_stats a) = totalConfidence (le_stats b)
          \<and> (num_less (averageConfidence (le_stats b)) (averageConfidence (le_stats a))
              \<or> (averageConfidence (le_stats a) = averageConfidence (le_stats b)
                  \<and> totalScans (le_stats a) \<ge> totalScans (le_stats b)))))"

definition ranking_key :: "leaderboard_entry \<Rightarrow> number \<times> number \<times> nat" where
  "ranking_key e = (totalConfidence (le_stats e), averageConfidence (le_stats e),
                 totalScans (le_stats e))"

definition unranked :: "ranked_entry \<Rightarrow> leaderboard_entry" where
  "unranked r = \<lparr>le_user = re_user r, le_stats = re_stats r\<rparr>"

text \<open>A fetched confidence is finite when it is not an infinity.\<close>

definition finite_confidence :: "number option option \<Rightarrow> bool" where
  "finite_confidence i = (i \<noteq> Some (Some PosInf) \<and> i \<noteq> Some (Some NegInf))"

section \<open>Reachable databases\<close>

text \<open>
  The databases the services can produce from the empty one: each rule is one call of a
  service method that writes, with any arguments and any behaviour of its collaborators.
  The last rule is the update of an \<^verbatim>\<open>unlikeAura\<close> call whose read was served by another
  reachable database.
\<close>

inductive reachable :: "db \<Rightarrow> bool" where
  r_empty: "reachable empty_db"
| r_sendOtp: "reachable d \<Longrightarrow> reachable (snd (sendOtp cfg tw random cuid now p d))"
| r_verifyOtp: "reachable d \<Longrightarrow> reachable (snd (verifyOtp sign now p c d))"
| r_register:
    "reachable d \<Longrightarrow> reachable (snd (register folder uploader sign cuid now dto pic d))"
| r_cleanup: "reachable d \<Longrightarrow> reachable (snd (performCleanup now d))"
| r_cleanupOtps: "reachable d \<Longrightarrow> reachable (snd (cleanupOtps now d))"
| r_followUser: "reachable d \<Longrightarrow> reachable (snd (followUser cuid now a b d))"
| r_unfollowUser: "reachable d \<Longrightarrow> reachable (snd (unfollowUser a b d))"
| r_likeAura: "reachable d \<Longrightarrow> reachable (snd (likeAura u auraId d))"
| r_unlikeAura: "reachable d \<Longrightarrow> reachable (snd (unlikeAura u auraId d))"
| r_shareAura: "reachable d \<Longrightarrow> reachable (snd (shareAura u auraId d))"
| r_uploadImage: "reachable d \<Longrightarrow> reachable (fst (snd (uploadImage ucfg env file u d)))"
| r_testUploadImage: "reachable d \<Longrightarrow> reachable (fst (snd (testUploadImage ucfg env file d)))"
| r_deleteImage: "reachable d \<Longrightarrow> reachable (snd (deleteImage imageId u d))"
| r_unlikeAura_update:
    "reachable d0 \<Longrightarrow> aura_findUnique auraId d0 = Some aura \<Longrightarrow> reachable d
       \<Longrightarrow> reachable (snd (unlikeAura_update aura auraId d))"




definition likes_nonnegative :: "db \<Rightarrow> bool" where
  "likes_nonnegative d = list_all (\<lambda>a. 0 \<le> aura_likes a) (auras d)"

section \<open>Concrete runs\<close>

definition dev_config :: config where
  "dev_config = \<lparr>nodeEnv = ''development'', twilio_accountSid = None,
                  twilio_authToken = None, twilio_phoneNumber = None\<rparr>"

definition prod_config :: config where
  "prod_config = \<lparr>nodeEnv = ''production'', twilio_accountSid = Some ''AC0123456789'',
                   twilio_authToken = Some ''0123456789abcdef'',
                   twilio_phoneNumber = Some ''+15550000''\<rparr>"

definition failing_client :: twilio_client where
  "failing_client body sender recipient = Inl \<lparr>te_message = ''unreachable'', te_code = ''ENOTFOUND''\<rparr>"

text \<open>One OTP issued at time 0 for a phone number (the random value 1/2 gives 550000).\<close>

definition one_otp_db :: db where
  "one_otp_db = snd (sendOtp dev_config None (1 / 2) ''otp1'' 0 ''+15550001'' empty_db)"

text \<open>A second OTP issued one second later to the same number, with the same random value.\<close>

definition two_otps_db :: db where
  "two_otps_db = snd (sendOtp dev_config None (1 / 2) ''otp2'' 1000 ''+15550001'' one_otp_db)"

text \<open>Two users, one image of the first user and its aura with no likes.\<close>

definition sample_db :: db where
  "sample_db =
     \<lparr>users = [\<lparr>u_id = ''u1'', u_firstName = ''Ada'', u_lastName = ''A'',
                 u_phoneNumber = ''+15550001'', u_birthday = 0, u_isVerified = True,
                 u_profilePictureUrl = None, u_profilePublicId = None\<rparr>,
               \<lparr>u_id = ''u2'', u_firstName = ''Bob'', u_lastName = ''B'',
                 u_phoneNumber = ''+15550002'', u_birthday = 0, u_isVerified = True,
                 u_profilePictureUrl = None, u_profilePublicId = None\<rparr>],
      otps = [],
      images = [\<lparr>img_id = ''i1'', img_originalUrl = ''https://img/1'', img_publicId = ''p1'',
                  img_fileName = ''a.png'', img_fileSize = 100, img_mimeType = ''image/png'',
                  img_width = Some 10, img_height = Some 10, img_isProcessed = True,
                  img_processingStatus = ''completed'', img_userId = ''u1'',
                  img_createdAt = 0\<rparr>],
      auras = [\<lparr>aura_id = ''a1'', aura_title = ''T'', aura_description = ''D'',
                 aura_mood = Some ''Silly'', aura_colors = [], aura_keywords = [],
                 aura_confidence = Some (Num (3 / 4)), aura_likes = 0, aura_shares = 0,
                 aura_imageId = ''i1'', aura_userId = ''u1''\<rparr>],
      follows = []\<rparr>"

text \<open>The same database with the aura at the largest value of its likes column.\<close>

definition full_likes_db :: db where
  "full_likes_db = sample_db\<lparr>auras := map (\<lambda>a. a\<lparr>aura_likes := 2147483647\<rparr>) (auras sample_db)\<rparr>"

text \<open>A server that answers 503 twice and then sends 100 zero bytes; one that never answers.\<close>

definition flaky_fetch :: "string \<Rightarrow> nat \<Rightarrow> fetch_outcome" where
  "flaky_fetch url attempt =
     (if attempt < 3 then NotOk ''Service Unavailable'' ''503'' else Body (replicate 100 0))"

definition dead_fetch :: "string \<Rightarrow> nat \<Rightarrow> fetch_outcome" where
  "dead_fetch url attempt = FetchThrows ''ETIMEDOUT''"

definition length_text :: "nat list \<Rightarrow> string" where
  "length_text buffer = decimal (length buffer)"

text \<open>A configuration, a PNG file and collaborators for concrete uploads.\<close>

definition sample_upload_config :: upload_config where
  "sample_upload_config =
     \<lparr>upload_allowedMimeTypes = [''image/jpeg'', ''image/png'', ''image/webp'', ''image/jpg''],
      upload_maxFileSize = 10485760, cloudinary_folder = ''aura-api''\<rparr>"

definition png_file :: File where
  "png_file = \<lparr>f_buffer = [137, 80, 78, 71], f_originalname = ''me.png'',
               f_mimetype = ''image/png'', f_size = 4\<rparr>"

definition sample_parse :: "string \<Rightarrow> string + gemini_json" where
  "sample_parse txt =
     Inr \<lparr>gj_title = Some txt, gj_description = Some ''Three lines'',
          gj_mood = Some ''Chill'', gj_keywords = None, gj_confidence = None\<rparr>"

definition sample_uploader :: cloudinary_uploader where
  "sample_uploader buffer publicId =
     Inr \<lparr>secure_url = ''https://res/'' @ publicId, public_id = publicId,
          api_width = 1, api_height = 1\<rparr>"

definition working_env :: upload_env where
  "working_env =
     \<lparr>env_genAI = Some (\<lambda>buffer mimeType. Inr ''Sunny''), env_parse = sample_parse,
      env_uploader = sample_uploader, env_imageCuid = ''i2'', env_auraCuid = ''a2'',
      env_timestamp = 7, env_createdAt = 8\<rparr>"

definition no_gemini_env :: upload_env where
  "no_gemini_env = working_env\<lparr>env_genAI := None\<rparr>"

text \<open>The database after one test upload into the empty database.\<close>

definition test_upload_db :: db where
  "test_upload_db =
     fst (snd (testUploadImage sample_upload_config working_env (Some png_file) empty_db))"

text \<open>
  The database after one test upload and one like of its aura, the aura row an
  \<^verbatim>\<open>unlikeAura\<close> request reads there, and the database after two such requests whose
  reads both came before either update.
\<close>

definition liked_db :: db where
  "liked_db = snd (likeAura ''u1'' ''a2'' test_upload_db)"

definition read_aura :: Aura where
  "read_aura = hd (auras liked_db)"

definition twice_unliked_db :: db where
  "twice_unliked_db =
     snd (unlikeAura_update read_aura ''a2'' (snd (unlikeAura_update read_aura ''a2'' liked_db)))"

text \<open>
  Five fetched users. Two have one image of confidence 0.8, one has no image, one has two
  images (0.9 and one without an aura), one has one image of confidence 0.145, whose
  hundredfold is the double just below 14.5.
\<close>

definition fetched ::
  "ident \<Rightarrow> number option option list \<Rightarrow> nat \<Rightarrow> fetched_user" where
  "fetched i cs n =
     \<lparr>fu_id = i, fu_firstName = ''F'', fu_lastName = ''L'', fu_profilePictureUrl = None,
      fu_images = cs, fu_followers = n\<rparr>"

definition sample_fetched :: "fetched_user list" where
  "sample_fetched =
     [fetched ''u1'' [Some (Some (to_double (4 / 5)))] 0,
      fetched ''u2'' [] 3,
      fetched ''u3'' [Some (Some (to_double (4 / 5)))] 1,
      fetched ''u4'' [Some (Some (to_double (9 / 10))), None] 1,
      fetched ''u5'' [Some (Some (to_double (29 / 200)))] 0]"

text \<open>
  Three fetched users, the second with two images whose confidences are the two
  infinities.
\<close>

definition infinite_fetched :: "fetched_user list" where
  "infinite_fetched =
     [fetched ''b'' [Some (Some (Num (1 / 2)))] 0,
      fetched ''a'' [Some (Some PosInf), Some (Some NegInf)] 0,
      fetched ''c'' [Some (Some (Num (3 / 4)))] 0]"

section \<open>Properties\<close>

lemma filter_unused_old:
  "filter (\<lambda>r. \<not> otp_isUsed r \<and> (otp_isUsed r \<or> \<not> otp_createdAt r < t)) xs
     = filter (\<lambda>r. \<not> otp_isUsed r \<and> \<not> otp_createdAt r < t) xs"
  by (rule filter_cong) auto

lemma length_unused_old:
  "length (filter (\<lambda>r. \<not> otp_isUsed r \<and> otp_createdAt r < t) (filter (\<lambda>r. \<not> otp_isUsed r) xs))
     = length (filter (\<lambda>r. \<not> otp_isUsed r \<and> otp_createdAt r < t) xs)"
  by (induction xs) auto

text \<open>
  C5. The cleanup (manual and scheduled) keeps exactly the OTP rows that are unused and
  were created no earlier than 30 minutes before the call, in their order; it deletes the
  used rows and the unused rows created more than 30 minutes before the call; every other
  table is unchanged; the two reported counts are the numbers of rows deleted by each
  criterion and the total is their sum.
\<close>

theorem cleanup_deletes_exactly:
  "otps (snd (performCleanup now d)) =
      filter (\<lambda>r. \<not> otp_isUsed r \<and> \<not> otp_createdAt r < now - 1800000) (otps d)
   \<and> users (snd (performCleanup now d)) = users d
   \<and> images (snd (performCleanup now d)) = images d
   \<and> auras (snd (performCleanup now d)) = auras d
   \<and> follows (snd (performCleanup now d)) = follows d
   \<and> verifiedOtpsDeleted (fst (performCleanup now d)) = length (filter otp_isUsed (otps d))
   \<and> expiredUnusedOtpsDeleted (fst (performCleanup now d)) =
        length (filter (\<lambda>r. \<not> otp_isUsed r \<and> otp_createdAt r < now - 1800000) (otps d))
   \<and> totalDeleted (fst (performCleanup now d)) =
        verifiedOtpsDeleted (fst (performCleanup now d))
        + expiredUnusedOtpsDeleted (fst (performCleanup now d))
   \<and> snd (cleanupOtps now d) = snd (performCleanup now d)
   \<and> fst (cleanupOtps now d) =
        (verifiedOtpsDeleted (fst (performCleanup now d)),
         expiredUnusedOtpsDeleted (fst (performCleanup now d)),
         totalDeleted (fst (performCleanup now d)))"
  by (simp add: performCleanup_def cleanupOtps_def otp_deleteMany_def Let_def
      filter_unused_old length_unused_old)

subsection \<open>verifyOtp and sendOtp\<close>

lemma verifyOtp_none:
  "find (otp_accepted now p c) (otps d) = None
   \<Longrightarrow> verifyOtp sign now p c d = (Inl (UnauthorizedException ''Invalid or expired OTP''), d)"
  by (simp add: verifyOtp_def otp_findFirst_def otp_accepted_def [abs_def])

lemma verifyOtp_some:
  "find (otp_accepted now p c) (otps d) = Some m
   \<Longrightarrow> (\<exists>resp. fst (verifyOtp sign now p c d) = Inr resp)
     \<and> otps (snd (verifyOtp sign now p c d)) =
          map (\<lambda>r. if otp_id r = otp_id m then r\<lparr>otp_isUsed := True\<rparr> else r) (otps d)"
  by (simp add: verifyOtp_def otp_findFirst_def otp_update_isUsed_def otp_accepted_def [abs_def]
      user_update_profilePictureUrl_def Let_def split: option.splits)

lemma verifyOtp_throws_iff:
  "(\<exists>e. fst (verifyOtp sign now p c d) = Inl e) \<longleftrightarrow> find (otp_accepted now p c) (otps d) = None"
proof (cases "find (otp_accepted now p c) (otps d)")
  case None
  then show ?thesis by (simp add: verifyOtp_none)
next
  case (Some m)
  from verifyOtp_some [OF Some, of sign] obtain resp where "fst (verifyOtp sign now p c d) = Inr resp"
    by blast
  with Some show ?thesis by simp
qed

lemma verifyOtp_succeeds_iff:
  "(\<exists>resp. fst (verifyOtp sign now p c d) = Inr resp) \<longleftrightarrow> (\<exists>r\<in>set (otps d). otp_accepted now p c r)"
proof (cases "find (otp_accepted now p c) (otps d)")
  case None
  then show ?thesis by (auto simp: verifyOtp_none find_None_iff)
next
  case (Some m)
  then have "\<exists>r\<in>set (otps d). otp_accepted now p c r"
    by (auto simp: find_Some_iff)
  with verifyOtp_some [OF Some, of sign] show ?thesis by blast
qed

lemma verifyOtp_second_call:
  assumes "find (otp_accepted now p c) (otps d) = Some m"
  shows "(\<exists>e. fst (verifyOtp sign' now' p c (snd (verifyOtp sign now p c d))) = Inl e)
           \<longleftrightarrow> (\<forall>r\<in>set (otps d). otp_accepted now' p c r \<longrightarrow> otp_id r = otp_id m)"
proof -
  have "otps (snd (verifyOtp sign now p c d)) =
          map (\<lambda>r. if otp_id r = otp_id m then r\<lparr>otp_isUsed := True\<rparr> else r) (otps d)"
    using verifyOtp_some [OF assms] by simp
  then show ?thesis
    by (auto simp: verifyOtp_throws_iff find_None_iff otp_accepted_def)
qed

lemma sendOtp_row:
  "cuid \<notin> set (map otp_id (otps d)) \<Longrightarrow>
   snd (sendOtp cfg tw random cuid t0 p d) =
     d\<lparr>otps := otps d @ [\<lparr>otp_id = cuid, otp_phoneNumber = p,
                           otp_code = toString (floor (100000 + random * 900000)),
                           otp_expiresAt = t0 + 600000, otp_isUsed = False,
                           otp_createdAt = t0\<rparr>]\<rparr>"
  by (simp add: sendOtp_def otp_create_def Let_def split: option.splits sum.splits)

lemma sendOtp_then_verifyOtp:
  assumes fresh: "cuid \<notin> set (map otp_id (otps d))"
    and none: "\<forall>r\<in>set (otps d). otp_phoneNumber r \<noteq> p"
  shows "(\<exists>resp. fst (verifyOtp sign now p c (snd (sendOtp cfg tw random cuid t0 p d))) = Inr resp)
           \<longleftrightarrow> c = toString (floor (100000 + random * 900000)) \<and> now < t0 + 600000"
  using none by (auto simp: verifyOtp_succeeds_iff sendOtp_row [OF fresh] otp_accepted_def)

lemma toString_550000: "toString 550000 = ''550000''"
  by (simp add: toString_def decimal.simps)

lemma code_550000: "toString (floor (100000 + (1 / 2 :: rat) * 900000)) = ''550000''"
  by (simp add: toString_550000)

lemma one_otp_db_eq:
  "one_otp_db = \<lparr>users = [], otps = [\<lparr>otp_id = ''otp1'', otp_phoneNumber = ''+15550001'',
       otp_code = ''550000'', otp_expiresAt = 600000, otp_isUsed = False, otp_createdAt = 0\<rparr>],
     images = [], auras = [], follows = []\<rparr>"
  unfolding one_otp_db_def
  by (simp add: sendOtp_row empty_db_def code_550000 toString_550000)

lemma two_otps_db_eq:
  "two_otps_db = \<lparr>users = [], otps = [\<lparr>otp_id = ''otp1'', otp_phoneNumber = ''+15550001'',
       otp_code = ''550000'', otp_expiresAt = 600000, otp_isUsed = False, otp_createdAt = 0\<rparr>,
      \<lparr>otp_id = ''otp2'', otp_phoneNumber = ''+15550001'',
       otp_code = ''550000'', otp_expiresAt = 601000, otp_isUsed = False, otp_createdAt = 1000\<rparr>],
     images = [], auras = [], follows = []\<rparr>"
  unfolding two_otps_db_def
  by (simp add: sendOtp_row one_otp_db_eq code_550000 toString_550000)

text \<open>
  C2 (as amended). \<^verbatim>\<open>verifyOtp\<close> succeeds exactly when some OTP row has the phone number
  and the code, is unused and expires strictly after the time of the call; otherwise it
  throws \<^verbatim>\<open>UnauthorizedException\<close> and leaves the database as it was. On success the first
  such row \<open>m\<close> is the matched one and the OTP table is the old one with the rows of
  \<open>m\<close>'s id marked used; a second call with the same phone number and code then fails
  exactly when no other row (one with a different id) is accepted at the time of the second
  call. A row written by \<^verbatim>\<open>sendOtp\<close> at time \<open>t0\<close> expires at \<open>t0 + 600000\<close>, and when the
  phone number has no earlier rows, \<^verbatim>\<open>verifyOtp\<close> accepts exactly the issued code and only
  strictly before \<open>t0 + 600000\<close>.
\<close>

theorem verifyOtp_accepts_unused_unexpired:
  "((\<exists>resp. fst (verifyOtp sign now p c d) = Inr resp)
      \<longleftrightarrow> (\<exists>r\<in>set (otps d). otp_accepted now p c r))
   \<and> (\<not> (\<exists>r\<in>set (otps d). otp_accepted now p c r)
        \<longrightarrow> verifyOtp sign now p c d
              = (Inl (UnauthorizedException ''Invalid or expired OTP''), d))
   \<and> (\<forall>m. find (otp_accepted now p c) (otps d) = Some m \<longrightarrow>
          otps (snd (verifyOtp sign now p c d)) =
            map (\<lambda>r. if otp_id r = otp_id m then r\<lparr>otp_isUsed := True\<rparr> else r) (otps d)
        \<and> ((\<exists>e. fst (verifyOtp sign' now' p c (snd (verifyOtp sign now p c d))) = Inl e)
             \<longleftrightarrow> (\<forall>r\<in>set (otps d). otp_accepted now' p c r \<longrightarrow> otp_id r = otp_id m)))
   \<and> (cuid \<notin> set (map otp_id (otps d)) \<longrightarrow>
        otps (snd (sendOtp cfg tw random cuid t0 p d)) =
          otps d @ [\<lparr>otp_id = cuid, otp_phoneNumber = p,
                      otp_code = toString (floor (100000 + random * 900000)),
                      otp_expiresAt = t0 + 10 * 60 * 1000, otp_isUsed = False,
                      otp_createdAt = t0\<rparr>]
        \<and> ((\<forall>r\<in>set (otps d). otp_phoneNumber r \<noteq> p) \<longrightarrow>
             ((\<exists>resp. fst (verifyOtp sign now p c (snd (sendOtp cfg tw random cuid t0 p d)))
                        = Inr resp)
              \<longleftrightarrow> c = toString (floor (100000 + random * 900000))
                  \<and> now < t0 + 10 * 60 * 1000)))"
proof (intro conjI impI allI)
  show "(\<exists>resp. fst (verifyOtp sign now p c d) = Inr resp)
          \<longleftrightarrow> (\<exists>r\<in>set (otps d). otp_accepted now p c r)"
    by (rule verifyOtp_succeeds_iff)
next
  assume "\<not> (\<exists>r\<in>set (otps d). otp_accepted now p c r)"
  then have "find (otp_accepted now p c) (otps d) = None"
    by (simp add: find_None_iff)
  then show "verifyOtp sign now p c d = (Inl (UnauthorizedException ''Invalid or expired OTP''), d)"
    by (rule verifyOtp_none)
next
  fix m assume "find (otp_accepted now p c) (otps d) = Some m"
  then show "otps (snd (verifyOtp sign now p c d)) =
      map (\<lambda>r. if otp_id r = otp_id m then r\<lparr>otp_isUsed := True\<rparr> else r) (otps d)"
    using verifyOtp_some by blast
next
  fix m assume "find (otp_accepted now p c) (otps d) = Some m"
  then show "(\<exists>e. fst (verifyOtp sign' now' p c (snd (verifyOtp sign now p c d))) = Inl e)
             \<longleftrightarrow> (\<forall>r\<in>set (otps d). otp_accepted now' p c r \<longrightarrow> otp_id r = otp_id m)"
    by (rule verifyOtp_second_call)
next
  assume "cuid \<notin> set (map otp_id (otps d))"
  then show "otps (snd (sendOtp cfg tw random cuid t0 p d)) =
          otps d @ [\<lparr>otp_id = cuid, otp_phoneNumber = p,
                      otp_code = toString (floor (100000 + random * 900000)),
                      otp_expiresAt = t0 + 10 * 60 * 1000, otp_isUsed = False,
                      otp_createdAt = t0\<rparr>]"
    by (simp add: sendOtp_row)
next
  assume "cuid \<notin> set (map otp_id (otps d))" "\<forall>r\<in>set (otps d). otp_phoneNumber r \<noteq> p"
  then show "(\<exists>resp. fst (verifyOtp sign now p c (snd (sendOtp cfg tw random cuid t0 p d)))
                        = Inr resp)
              \<longleftrightarrow> c = toString (floor (100000 + random * 900000))
                  \<and> now < t0 + 10 * 60 * 1000"
    using sendOtp_then_verifyOtp [of cuid d p sign now c cfg tw random t0] by simp
qed

text \<open>
  The amended claim at a concrete run: one OTP issued at time 0; the code is accepted at
  time 2000, refused on the second call at time 3000, and the issued row expires at 600000.
\<close>

theorem verifyOtp_accepts_unused_unexpired_witness:
  "(\<exists>resp. fst (verifyOtp (@) 2000 ''+15550001'' ''550000'' one_otp_db) = Inr resp)
   \<and> (\<exists>e. fst (verifyOtp (@) 3000 ''+15550001'' ''550000''
               (snd (verifyOtp (@) 2000 ''+15550001'' ''550000'' one_otp_db))) = Inl e)
   \<and> verifyOtp (@) 600000 ''+15550001'' ''550000'' one_otp_db
       = (Inl (UnauthorizedException ''Invalid or expired OTP''), one_otp_db)
   \<and> otps (snd (sendOtp dev_config None (1 / 2) ''otp1'' 0 ''+15550001'' empty_db)) =
       [\<lparr>otp_id = ''otp1'', otp_phoneNumber = ''+15550001'', otp_code = ''550000'',
         otp_expiresAt = 600000, otp_isUsed = False, otp_createdAt = 0\<rparr>]"
proof -
  let ?r = "\<lparr>otp_id = ''otp1'', otp_phoneNumber = ''+15550001'', otp_code = ''550000'',
         otp_expiresAt = 600000, otp_isUsed = False, otp_createdAt = 0\<rparr>"
  have f: "find (otp_accepted 2000 ''+15550001'' ''550000'') (otps one_otp_db) = Some ?r"
    by (simp add: one_otp_db_eq otp_accepted_def)
  have a: "\<exists>r\<in>set (otps one_otp_db). otp_accepted 2000 ''+15550001'' ''550000'' r"
    by (simp add: one_otp_db_eq otp_accepted_def)
  have b: "\<forall>r\<in>set (otps one_otp_db). otp_accepted 3000 ''+15550001'' ''550000'' r
             \<longrightarrow> otp_id r = otp_id ?r"
    by (simp add: one_otp_db_eq)
  have c: "\<not> (\<exists>r\<in>set (otps one_otp_db). otp_accepted 600000 ''+15550001'' ''550000'' r)"
    by (simp add: one_otp_db_eq otp_accepted_def)
  have e: "''otp1'' \<notin> set (map otp_id (otps empty_db))"
    by (simp add: empty_db_def)
  note t1 = verifyOtp_accepts_unused_unexpired
     [of "(@)" 2000 "''+15550001''" "''550000''" one_otp_db "(@)" 3000 "''otp1''"
         dev_config None "1 / 2" 0]
  note t2 = verifyOtp_accepts_unused_unexpired
     [of "(@)" 600000 "''+15550001''" "''550000''" one_otp_db "(@)" 3000 "''otp1''"
         dev_config None "1 / 2" 0]
  note t3 = verifyOtp_accepts_unused_unexpired
     [of "(@)" 2000 "''+15550001''" "''550000''" empty_db "(@)" 3000 "''otp1''"
         dev_config None "1 / 2" 0]
  from t1 a have 1: "\<exists>resp. fst (verifyOtp (@) 2000 ''+15550001'' ''550000'' one_otp_db) = Inr resp"
    by blast
  from t1 f b have 2: "\<exists>e. fst (verifyOtp (@) 3000 ''+15550001'' ''550000''
               (snd (verifyOtp (@) 2000 ''+15550001'' ''550000'' one_otp_db))) = Inl e"
    by blast
  from t2 c have 3: "verifyOtp (@) 600000 ''+15550001'' ''550000'' one_otp_db
       = (Inl (UnauthorizedException ''Invalid or expired OTP''), one_otp_db)"
    by blast
  from t3 e have 4: "otps (snd (sendOtp dev_config None (1 / 2) ''otp1'' 0 ''+15550001'' empty_db)) =
       [?r]"
    by (simp add: empty_db_def code_550000 toString_550000)
  from 1 2 3 4 show ?thesis by blast
qed

text \<open>
  The claim as stated fails: after two OTPs with the same code for the same number (the
  random values coincide), the second call of \<^verbatim>\<open>verifyOtp\<close> with that code succeeds too.
\<close>

theorem verifyOtp_second_call_succeeds:
  "fst (verifyOtp (@) 2000 ''+15550001'' ''550000'' two_otps_db)
     = Inr (NewUser ''OTP verified. Please complete registration.'' ''+15550001'')
   \<and> fst (verifyOtp (@) 3000 ''+15550001'' ''550000''
           (snd (verifyOtp (@) 2000 ''+15550001'' ''550000'' two_otps_db)))
     = Inr (NewUser ''OTP verified. Please complete registration.'' ''+15550001'')"
  by (simp add: two_otps_db_eq verifyOtp_def otp_findFirst_def otp_update_isUsed_def
      user_findUnique_phoneNumber_def Let_def)

text \<open>
  C10. With a fresh row id: outside production \<^verbatim>\<open>sendOtp\<close> returns the success response
  (with the code only in development) whatever the Twilio client is or does, and the OTP
  row is persisted; \<^verbatim>\<open>sendOtp\<close> throws exactly when the environment is production and a
  configured client's send throws, it then throws \<^verbatim>\<open>BadRequestException\<close>, and the OTP row
  is persisted in that case as well.
\<close>

theorem sendOtp_twilio_failure:
  assumes "cuid \<notin> set (map otp_id (otps d))"
  shows
  "(nodeEnv cfg \<noteq> ''production'' \<longrightarrow>
      fst (sendOtp cfg twilioClient random cuid now p d) =
        Inr \<lparr>so_message = ''OTP sent successfully'',
             so_code = (if nodeEnv cfg = ''development''
                        then Some (toString (floor (100000 + random * 900000))) else None)\<rparr>)
   \<and> ((\<exists>e. fst (sendOtp cfg twilioClient random cuid now p d) = Inl e) \<longleftrightarrow>
        nodeEnv cfg = ''production''
        \<and> (\<exists>client err. twilioClient = Some client
             \<and> client (''Your Aura verification code is: ''
                         @ toString (floor (100000 + random * 900000)))
                  (twilio_phoneNumber cfg) p = Inl err))
   \<and> (\<forall>e. fst (sendOtp cfg twilioClient random cuid now p d) = Inl e
          \<longrightarrow> (\<exists>m. e = BadRequestException m))
   \<and> otps (snd (sendOtp cfg twilioClient random cuid now p d)) =
        otps d @ [\<lparr>otp_id = cuid, otp_phoneNumber = p,
                    otp_code = toString (floor (100000 + random * 900000)),
                    otp_expiresAt = now + 10 * 60 * 1000, otp_isUsed = False,
                    otp_createdAt = now\<rparr>]"
  using assms
  by (auto simp add: sendOtp_def otp_create_def Let_def split: option.splits sum.splits)

theorem sendOtp_twilio_failure_witness:
  "fst (sendOtp dev_config (Some failing_client) (1 / 2) ''otp1'' 0 ''+15550001'' empty_db)
     = Inr \<lparr>so_message = ''OTP sent successfully'', so_code = Some ''550000''\<rparr>
   \<and> fst (sendOtp dev_config None (1 / 2) ''otp1'' 0 ''+15550001'' empty_db)
     = Inr \<lparr>so_message = ''OTP sent successfully'', so_code = Some ''550000''\<rparr>
   \<and> (\<exists>e. fst (sendOtp prod_config (Some failing_client) (1 / 2) ''otp1'' 0 ''+15550001''
              empty_db) = Inl e)
   \<and> otps (snd (sendOtp prod_config (Some failing_client) (1 / 2) ''otp1'' 0 ''+15550001''
              empty_db))
     = [\<lparr>otp_id = ''otp1'', otp_phoneNumber = ''+15550001'', otp_code = ''550000'',
         otp_expiresAt = 600000, otp_isUsed = False, otp_createdAt = 0\<rparr>]"
proof -
  have e: "''otp1'' \<notin> set (map otp_id (otps empty_db))"
    by (simp add: empty_db_def)
  note a = sendOtp_twilio_failure [OF e, of dev_config "Some failing_client" "1 / 2" 0 "''+15550001''"]
  note b = sendOtp_twilio_failure [OF e, of dev_config None "1 / 2" 0 "''+15550001''"]
  note c = sendOtp_twilio_failure [OF e, of prod_config "Some failing_client" "1 / 2" 0 "''+15550001''"]
  from a have 1: "fst (sendOtp dev_config (Some failing_client) (1 / 2) ''otp1'' 0 ''+15550001'' empty_db)
     = Inr \<lparr>so_message = ''OTP sent successfully'', so_code = Some ''550000''\<rparr>"
    by (simp add: dev_config_def code_550000 toString_550000)
  from b have 2: "fst (sendOtp dev_config None (1 / 2) ''otp1'' 0 ''+15550001'' empty_db)
     = Inr \<lparr>so_message = ''OTP sent successfully'', so_code = Some ''550000''\<rparr>"
    by (simp add: dev_config_def code_550000 toString_550000)
  from c have 3: "\<exists>e. fst (sendOtp prod_config (Some failing_client) (1 / 2) ''otp1'' 0 ''+15550001''
              empty_db) = Inl e"
    by (simp add: prod_config_def failing_client_def)
  from c have 4: "otps (snd (sendOtp prod_config (Some failing_client) (1 / 2) ''otp1'' 0 ''+15550001''
              empty_db))
     = [\<lparr>otp_id = ''otp1'', otp_phoneNumber = ''+15550001'', otp_code = ''550000'',
         otp_expiresAt = 600000, otp_isUsed = False, otp_createdAt = 0\<rparr>]"
    by (simp add: empty_db_def code_550000 toString_550000)
  from 1 2 3 4 show ?thesis by blast
qed

subsection \<open>Follow and unfollow\<close>

lemma find_app:
  "find P (xs @ ys) = (case find P xs of None \<Rightarrow> find P ys | Some x \<Rightarrow> Some x)"
  by (induction xs) auto

lemma followUser_creates:
  assumes "A \<noteq> B" "A \<in> set (map u_id (users d))" "B \<in> set (map u_id (users d))"
    "(A, B) \<notin> follow_relation d" "cuid \<notin> set (map fol_id (follows d))"
  shows "followUser cuid now A B d =
           (Inr \<lparr>fr_message = ''User followed successfully'', fr_following = True\<rparr>,
            d\<lparr>follows := follows d @ [\<lparr>fol_id = cuid, fol_followerId = A,
                                        fol_followingId = B, fol_createdAt = now\<rparr>]\<rparr>)"
proof -
  from assms(3) obtain u where "find (\<lambda>u. u_id u = B) (users d) = Some u"
    by (cases "find (\<lambda>u. u_id u = B) (users d)") (auto simp: find_None_iff)
  moreover from assms(4)
  have "find (\<lambda>f. fol_followerId f = A \<and> fol_followingId f = B) (follows d) = None"
    by (auto simp: find_None_iff follow_relation_def)
  ultimately show ?thesis
    using assms
    by (simp add: followUser_def user_findUnique_id_def follow_findUnique_def follow_create_def
        follow_relation_def)
qed

lemma unfollowUser_removes:
  assumes "(A, B) \<notin> follow_relation d"
  shows "unfollowUser A B (d\<lparr>follows := follows d @ [\<lparr>fol_id = cuid, fol_followerId = A,
                                        fol_followingId = B, fol_createdAt = now\<rparr>]\<rparr>)
         = (Inr \<lparr>fr_message = ''User unfollowed successfully'', fr_following = False\<rparr>, d)"
proof -
  let ?P = "\<lambda>f. fol_followerId f = A \<and> fol_followingId f = B"
  let ?row = "\<lparr>fol_id = cuid, fol_followerId = A, fol_followingId = B, fol_createdAt = now\<rparr>"
  from assms have n: "\<forall>f\<in>set (follows d). \<not> ?P f"
    by (auto simp: follow_relation_def)
  then have "find ?P (follows d) = None" by (simp add: find_None_iff)
  then have f: "find ?P (follows d @ [?row]) = Some ?row"
    by (simp add: find_app)
  from n have g: "filter (\<lambda>f. \<not> ?P f) (follows d) = follows d"
    by (simp add: filter_id_conv)
  show ?thesis
    using f g by (simp add: unfollowUser_def follow_findUnique_def follow_delete_def)
qed

text \<open>
  C4. For distinct users A and B of the database where A does not follow B (and the id
  generated for the new row is fresh), \<^verbatim>\<open>followUser\<close> returns \<^verbatim>\<open>following: true\<close>, appends
  one Follow row, adds exactly the pair (A, B) to the follow relation and changes no other
  table; the following \<^verbatim>\<open>unfollowUser\<close> returns \<^verbatim>\<open>following: false\<close>, removes exactly that
  pair and leaves the database as it was before \<^verbatim>\<open>followUser\<close>.
\<close>

theorem follow_then_unfollow:
  assumes "A \<noteq> B" "A \<in> set (map u_id (users d))" "B \<in> set (map u_id (users d))"
    "(A, B) \<notin> follow_relation d" "cuid \<notin> set (map fol_id (follows d))"
  shows
   "fst (followUser cuid now A B d)
      = Inr \<lparr>fr_message = ''User followed successfully'', fr_following = True\<rparr>
    \<and> follow_relation (snd (followUser cuid now A B d)) = insert (A, B) (follow_relation d)
    \<and> follows (snd (followUser cuid now A B d)) =
        follows d @ [\<lparr>fol_id = cuid, fol_followerId = A, fol_followingId = B,
                       fol_createdAt = now\<rparr>]
    \<and> users (snd (followUser cuid now A B d)) = users d
    \<and> otps (snd (followUser cuid now A B d)) = otps d
    \<and> images (snd (followUser cuid now A B d)) = images d
    \<and> auras (snd (followUser cuid now A B d)) = auras d
    \<and> fst (unfollowUser A B (snd (followUser cuid now A B d)))
        = Inr \<lparr>fr_message = ''User unfollowed successfully'', fr_following = False\<rparr>
    \<and> follow_relation (snd (unfollowUser A B (snd (followUser cuid now A B d))))
        = follow_relation (snd (followUser cuid now A B d)) - {(A, B)}
    \<and> snd (unfollowUser A B (snd (followUser cuid now A B d))) = d"
proof -
  note f = followUser_creates [OF assms, of now]
  note u = unfollowUser_removes [OF assms(4), of cuid now]
  have r: "follow_relation (snd (followUser cuid now A B d)) = insert (A, B) (follow_relation d)"
    by (simp add: f follow_relation_def)
  have "snd (unfollowUser A B (snd (followUser cuid now A B d))) = d"
    by (simp add: f u)
  moreover have "follow_relation d = follow_relation (snd (followUser cuid now A B d)) - {(A, B)}"
    using assms(4) by (simp add: r)
  ultimately show ?thesis
    using r by (simp add: f u)
qed

theorem follow_then_unfollow_witness:
  "fst (followUser ''f1'' 5 ''u2'' ''u1'' sample_db)
      = Inr \<lparr>fr_message = ''User followed successfully'', fr_following = True\<rparr>
   \<and> follow_relation (snd (followUser ''f1'' 5 ''u2'' ''u1'' sample_db)) = {(''u2'', ''u1'')}
   \<and> unfollowUser ''u2'' ''u1'' (snd (followUser ''f1'' 5 ''u2'' ''u1'' sample_db))
      = (Inr \<lparr>fr_message = ''User unfollowed successfully'', fr_following = False\<rparr>, sample_db)"
proof -
  have "''u2'' \<noteq> ''u1''" by simp
  moreover have "''u2'' \<in> set (map u_id (users sample_db))"
    and "''u1'' \<in> set (map u_id (users sample_db))"
    and "(''u2'', ''u1'') \<notin> follow_relation sample_db"
    and "''f1'' \<notin> set (map fol_id (follows sample_db))"
    by (simp_all add: sample_db_def follow_relation_def)
  ultimately have t: "fst (followUser ''f1'' 5 ''u2'' ''u1'' sample_db)
      = Inr \<lparr>fr_message = ''User followed successfully'', fr_following = True\<rparr>
    \<and> follow_relation (snd (followUser ''f1'' 5 ''u2'' ''u1'' sample_db))
        = insert (''u2'', ''u1'') (follow_relation sample_db)
    \<and> follows (snd (followUser ''f1'' 5 ''u2'' ''u1'' sample_db)) =
        follows sample_db @ [\<lparr>fol_id = ''f1'', fol_followerId = ''u2'', fol_followingId = ''u1'',
                       fol_createdAt = 5\<rparr>]
    \<and> users (snd (followUser ''f1'' 5 ''u2'' ''u1'' sample_db)) = users sample_db
    \<and> otps (snd (followUser ''f1'' 5 ''u2'' ''u1'' sample_db)) = otps sample_db
    \<and> images (snd (followUser ''f1'' 5 ''u2'' ''u1'' sample_db)) = images sample_db
    \<and> auras (snd (followUser ''f1'' 5 ''u2'' ''u1'' sample_db)) = auras sample_db
    \<and> fst (unfollowUser ''u2'' ''u1'' (snd (followUser ''f1'' 5 ''u2'' ''u1'' sample_db)))
        = Inr \<lparr>fr_message = ''User unfollowed successfully'', fr_following = False\<rparr>
    \<and> follow_relation (snd (unfollowUser ''u2'' ''u1'' (snd (followUser ''f1'' 5 ''u2'' ''u1'' sample_db))))
        = follow_relation (snd (followUser ''f1'' 5 ''u2'' ''u1'' sample_db)) - {(''u2'', ''u1'')}
    \<and> snd (unfollowUser ''u2'' ''u1'' (snd (followUser ''f1'' 5 ''u2'' ''u1'' sample_db))) = sample_db"
    by (rule follow_then_unfollow)
  have e: "follow_relation sample_db = {}"
    by (simp add: sample_db_def follow_relation_def)
  from t e show ?thesis
    by (simp add: prod_eq_iff)
qed

subsection \<open>Likes\<close>

lemma find_after_update:
  assumes "find (\<lambda>x. aura_id x = i) xs = Some a" "\<And>x. aura_id (f x) = aura_id x"
  shows "find (\<lambda>x. aura_id x = i) (map (\<lambda>x. if aura_id x = i then f x else x) xs) = Some (f a)"
  using assms by (induction xs) (auto split: if_splits)

lemma likeAura_eq:
  assumes "aura_findUnique auraId d = Some a" "int4 (aura_likes a + 1)"
  shows "likeAura u auraId d =
           (Inr \<lparr>lr_message = ''Aura liked successfully'', lr_liked = True,
                 lr_totalLikes = aura_likes a + 1\<rparr>,
            d\<lparr>auras := map (\<lambda>x. if aura_id x = auraId then x\<lparr>aura_likes := aura_likes x + 1\<rparr>
                                 else x) (auras d)\<rparr>)"
  using assms by (simp add: likeAura_def aura_update_likes_def)

lemma likeAura_out_of_range:
  assumes "aura_findUnique auraId d = Some a" "\<not> int4 (aura_likes a + 1)"
  shows "likeAura u auraId d = (Inl (PrismaError ''Value out of range for the type''), d)"
  using assms by (simp add: likeAura_def aura_update_likes_def)

lemma unlikeAura_eq:
  assumes "aura_findUnique auraId d = Some a"
    "int4 (aura_likes a - (if aura_likes a > 0 then 1 else 0))"
  shows "unlikeAura u auraId d =
           (Inr \<lparr>lr_message = ''Aura unliked successfully'', lr_liked = False,
                 lr_totalLikes = aura_likes a - (if aura_likes a > 0 then 1 else 0)\<rparr>,
            d\<lparr>auras := map (\<lambda>x. if aura_id x = auraId
                                 then x\<lparr>aura_likes := aura_likes x
                                          - (if aura_likes a > 0 then 1 else 0)\<rparr>
                                 else x) (auras d)\<rparr>)"
  using assms by (simp add: unlikeAura_def unlikeAura_update_def aura_update_likes_def)

lemma aura_findUnique_after_like:
  assumes "aura_findUnique auraId d = Some a" "int4 (aura_likes a + 1)"
  shows "aura_findUnique auraId (snd (likeAura u auraId d)) = Some (a\<lparr>aura_likes := aura_likes a + 1\<rparr>)"
proof -
  have "find (\<lambda>x. aura_id x = auraId)
          (map (\<lambda>x. if aura_id x = auraId then x\<lparr>aura_likes := aura_likes x + 1\<rparr> else x) (auras d))
        = Some (a\<lparr>aura_likes := aura_likes a + 1\<rparr>)"
    using assms(1) unfolding aura_findUnique_def
    by (rule find_after_update) simp
  then show ?thesis
    by (simp add: likeAura_eq [OF assms] aura_findUnique_def)
qed

text \<open>
  C9, as amended. For an existing aura with row \<open>a\<close>, whose likes are a 32-bit integer:
  \<^verbatim>\<open>likeAura\<close> and \<^verbatim>\<open>unlikeAura\<close> do not depend on the calling user. When the count is
  below 2147483647, \<^verbatim>\<open>likeAura\<close> returns the old count plus 1 and adds 1 to the likes of
  that aura only; at 2147483647 it throws and leaves the database as it was. When the
  count is below 2147483646, two calls by the same user return the old count plus 2.
  \<^verbatim>\<open>unlikeAura\<close> succeeds for any user, subtracting 1 when the count is positive and 0
  otherwise, also right after a like by a different user.
\<close>

theorem likeAura_bare_counter:
  assumes "aura_findUnique auraId d = Some a" and "int4 (aura_likes a)"
  shows
   "likeAura u auraId d = likeAura u' auraId d
    \<and> (aura_likes a < 2147483647 \<longrightarrow>
         fst (likeAura u auraId d)
           = Inr \<lparr>lr_message = ''Aura liked successfully'', lr_liked = True,
                  lr_totalLikes = aura_likes a + 1\<rparr>
         \<and> snd (likeAura u auraId d)
           = d\<lparr>auras := map (\<lambda>x. if aura_id x = auraId
                                   then x\<lparr>aura_likes := aura_likes x + 1\<rparr> else x)
                             (auras d)\<rparr>
         \<and> fst (unlikeAura u' auraId (snd (likeAura u auraId d)))
           = Inr \<lparr>lr_message = ''Aura unliked successfully'', lr_liked = False,
                  lr_totalLikes = aura_likes a + 1 - (if aura_likes a + 1 > 0 then 1 else 0)\<rparr>)
    \<and> (aura_likes a = 2147483647 \<longrightarrow>
         likeAura u auraId d = (Inl (PrismaError ''Value out of range for the type''), d))
    \<and> (aura_likes a < 2147483646 \<longrightarrow>
         fst (likeAura u auraId (snd (likeAura u auraId d)))
           = Inr \<lparr>lr_message = ''Aura liked successfully'', lr_liked = True,
                  lr_totalLikes = aura_likes a + 2\<rparr>)
    \<and> unlikeAura u auraId d = unlikeAura u' auraId d
    \<and> unlikeAura u auraId d
        = (Inr \<lparr>lr_message = ''Aura unliked successfully'', lr_liked = False,
                 lr_totalLikes = aura_likes a - (if aura_likes a > 0 then 1 else 0)\<rparr>,
           d\<lparr>auras := map (\<lambda>x. if aura_id x = auraId
                                  then x\<lparr>aura_likes := aura_likes x
                                           - (if aura_likes a > 0 then 1 else 0)\<rparr>
                                  else x) (auras d)\<rparr>)"
proof -
  have 1: "likeAura u auraId d = likeAura u' auraId d"
    by (simp add: likeAura_def)
  have 2: "unlikeAura u auraId d = unlikeAura u' auraId d"
    by (simp add: unlikeAura_def)
  have r: "int4 (aura_likes a - (if aura_likes a > 0 then 1 else 0))"
    using assms(2) by (simp add: int4_def)
  note un = unlikeAura_eq [OF assms(1) r]
  have 3: "aura_likes a = 2147483647 \<longrightarrow>
         likeAura u auraId d = (Inl (PrismaError ''Value out of range for the type''), d)"
  proof
    assume "aura_likes a = 2147483647"
    then have "\<not> int4 (aura_likes a + 1)" by (simp add: int4_def)
    with assms(1) show "likeAura u auraId d
        = (Inl (PrismaError ''Value out of range for the type''), d)"
      by (rule likeAura_out_of_range)
  qed
  have 4: "aura_likes a < 2147483647 \<longrightarrow>
         fst (likeAura u auraId d)
           = Inr \<lparr>lr_message = ''Aura liked successfully'', lr_liked = True,
                  lr_totalLikes = aura_likes a + 1\<rparr>
         \<and> snd (likeAura u auraId d)
           = d\<lparr>auras := map (\<lambda>x. if aura_id x = auraId
                                   then x\<lparr>aura_likes := aura_likes x + 1\<rparr> else x)
                             (auras d)\<rparr>
         \<and> fst (unlikeAura u' auraId (snd (likeAura u auraId d)))
           = Inr \<lparr>lr_message = ''Aura unliked successfully'', lr_liked = False,
                  lr_totalLikes = aura_likes a + 1 - (if aura_likes a + 1 > 0 then 1 else 0)\<rparr>"
  proof
    assume lt: "aura_likes a < 2147483647"
    with assms(2) have i: "int4 (aura_likes a + 1)" by (simp add: int4_def)
    note l = likeAura_eq [OF assms(1) i]
    note n = aura_findUnique_after_like [OF assms(1) i, of u]
    have "int4 (aura_likes (a\<lparr>aura_likes := aura_likes a + 1\<rparr>)
            - (if aura_likes (a\<lparr>aura_likes := aura_likes a + 1\<rparr>) > 0 then 1 else 0))"
      using assms(2) lt by (simp add: int4_def)
    note unlikeAura_eq [OF n this, of u']
    then have "fst (unlikeAura u' auraId (snd (likeAura u auraId d)))
           = Inr \<lparr>lr_message = ''Aura unliked successfully'', lr_liked = False,
                  lr_totalLikes = aura_likes a + 1 - (if aura_likes a + 1 > 0 then 1 else 0)\<rparr>"
      by simp
    then show "fst (likeAura u auraId d)
           = Inr \<lparr>lr_message = ''Aura liked successfully'', lr_liked = True,
                  lr_totalLikes = aura_likes a + 1\<rparr>
         \<and> snd (likeAura u auraId d)
           = d\<lparr>auras := map (\<lambda>x. if aura_id x = auraId
                                   then x\<lparr>aura_likes := aura_likes x + 1\<rparr> else x)
                             (auras d)\<rparr>
         \<and> fst (unlikeAura u' auraId (snd (likeAura u auraId d)))
           = Inr \<lparr>lr_message = ''Aura unliked successfully'', lr_liked = False,
                  lr_totalLikes = aura_likes a + 1 - (if aura_likes a + 1 > 0 then 1 else 0)\<rparr>"
      by (simp add: l)
  qed
  have 5: "aura_likes a < 2147483646 \<longrightarrow>
         fst (likeAura u auraId (snd (likeAura u auraId d)))
           = Inr \<lparr>lr_message = ''Aura liked successfully'', lr_liked = True,
                  lr_totalLikes = aura_likes a + 2\<rparr>"
  proof
    assume lt: "aura_likes a < 2147483646"
    with assms(2) have i: "int4 (aura_likes a + 1)" by (simp add: int4_def)
    note n = aura_findUnique_after_like [OF assms(1) i, of u]
    have "int4 (aura_likes (a\<lparr>aura_likes := aura_likes a + 1\<rparr>) + 1)"
      using assms(2) lt by (simp add: int4_def)
    note likeAura_eq [OF n this, of u]
    then show "fst (likeAura u auraId (snd (likeAura u auraId d)))
           = Inr \<lparr>lr_message = ''Aura liked successfully'', lr_liked = True,
                  lr_totalLikes = aura_likes a + 2\<rparr>"
      by simp
  qed
  from 1 2 3 4 5 un show ?thesis
    by blast
qed

theorem likeAura_bare_counter_witness:
  "fst (likeAura ''u2'' ''a1'' sample_db)
     = Inr \<lparr>lr_message = ''Aura liked successfully'', lr_liked = True, lr_totalLikes = 1\<rparr>
   \<and> map aura_likes (auras (snd (likeAura ''u2'' ''a1'' sample_db))) = [1]
   \<and> fst (likeAura ''u2'' ''a1'' (snd (likeAura ''u2'' ''a1'' sample_db)))
     = Inr \<lparr>lr_message = ''Aura liked successfully'', lr_liked = True, lr_totalLikes = 2\<rparr>
   \<and> fst (unlikeAura ''u1'' ''a1'' sample_db)
     = Inr \<lparr>lr_message = ''Aura unliked successfully'', lr_liked = False, lr_totalLikes = 0\<rparr>
   \<and> map aura_likes (auras (snd (unlikeAura ''u1'' ''a1'' sample_db))) = [0]
   \<and> fst (unlikeAura ''u1'' ''a1'' (snd (likeAura ''u2'' ''a1'' sample_db)))
     = Inr \<lparr>lr_message = ''Aura unliked successfully'', lr_liked = False, lr_totalLikes = 0\<rparr>"
proof -
  have f: "aura_findUnique ''a1'' sample_db = Some (hd (auras sample_db))"
    by (simp add: aura_findUnique_def sample_db_def)
  have z: "aura_likes (hd (auras sample_db)) = 0"
    by (simp add: sample_db_def)
  have i: "int4 (aura_likes (hd (auras sample_db)))"
    by (simp add: z int4_def)
  note t = likeAura_bare_counter [OF f i, of "''u2''" "''u1''"]
  have lt: "aura_likes (hd (auras sample_db)) < 2147483647"
    "aura_likes (hd (auras sample_db)) < 2147483646"
    by (simp_all add: z)
  from t lt have 1: "fst (likeAura ''u2'' ''a1'' sample_db)
     = Inr \<lparr>lr_message = ''Aura liked successfully'', lr_liked = True,
            lr_totalLikes = aura_likes (hd (auras sample_db)) + 1\<rparr>"
    by blast
  from t lt have 2: "snd (likeAura ''u2'' ''a1'' sample_db)
     = sample_db\<lparr>auras := map (\<lambda>x. if aura_id x = ''a1''
                                     then x\<lparr>aura_likes := aura_likes x + 1\<rparr> else x)
                               (auras sample_db)\<rparr>"
    by blast
  from t lt have 3: "fst (likeAura ''u2'' ''a1'' (snd (likeAura ''u2'' ''a1'' sample_db)))
     = Inr \<lparr>lr_message = ''Aura liked successfully'', lr_liked = True,
            lr_totalLikes = aura_likes (hd (auras sample_db)) + 2\<rparr>"
    by blast
  from t have 4: "unlikeAura ''u2'' ''a1'' sample_db
     = (Inr \<lparr>lr_message = ''Aura unliked successfully'', lr_liked = False,
             lr_totalLikes = aura_likes (hd (auras sample_db))
                - (if aura_likes (hd (auras sample_db)) > 0 then 1 else 0)\<rparr>,
        sample_db\<lparr>auras := map (\<lambda>x. if aura_id x = ''a1''
                    then x\<lparr>aura_likes := aura_likes x
                            - (if aura_likes (hd (auras sample_db)) > 0 then 1 else 0)\<rparr>
                    else x) (auras sample_db)\<rparr>)"
    by blast
  from t have 5: "unlikeAura ''u2'' ''a1'' sample_db = unlikeAura ''u1'' ''a1'' sample_db"
    by blast
  from t lt have 6: "fst (unlikeAura ''u1'' ''a1'' (snd (likeAura ''u2'' ''a1'' sample_db)))
     = Inr \<lparr>lr_message = ''Aura unliked successfully'', lr_liked = False,
            lr_totalLikes = aura_likes (hd (auras sample_db)) + 1
               - (if aura_likes (hd (auras sample_db)) + 1 > 0 then 1 else 0)\<rparr>"
    by blast
  have a: "map aura_likes (auras (snd (likeAura ''u2'' ''a1'' sample_db))) = [1]"
    unfolding 2 by (simp add: sample_db_def)
  have b: "map aura_likes (auras (snd (unlikeAura ''u1'' ''a1'' sample_db))) = [0]"
    unfolding 5 [symmetric] 4 by (simp add: sample_db_def)
  from 1 3 4 5 6 a b show ?thesis
    by (simp add: z)
qed

text \<open>
  C9 as stated fails at the largest value of the column: a \<^verbatim>\<open>likeAura\<close> call on an existing
  aura with 2147483647 likes throws and the count stays 2147483647.
\<close>

theorem likeAura_at_largest_count:
  "aura_findUnique ''a1'' full_likes_db \<noteq> None
   \<and> map aura_likes (auras full_likes_db) = [2147483647]
   \<and> fst (likeAura ''u2'' ''a1'' full_likes_db)
       = Inl (PrismaError ''Value out of range for the type'')
   \<and> map aura_likes (auras (snd (likeAura ''u2'' ''a1'' full_likes_db))) = [2147483647]"
  by (simp add: full_likes_db_def sample_db_def likeAura_def aura_update_likes_def
      aura_findUnique_def int4_def)

subsection \<open>The retry loop of the image fetch\<close>

lemma fetchLoop_fetches_bound:
  "length (filter is_Fetch (snd (fetchLoop fetch base64 url attempt))) \<le> maxRetries + 1 - attempt"
proof (induction fetch base64 url attempt rule: fetchLoop.induct)
  case (1 fetch base64 imageUrl attempt)
  show ?case
  proof (cases "attempt \<le> maxRetries")
    case False
    then show ?thesis by (simp add: fetchLoop.simps)
  next
    case True
    show ?thesis
    proof (cases "attempt < maxRetries")
      case False
      with True show ?thesis
        by (subst fetchLoop.simps) (simp add: Let_def split: fetch_outcome.splits)
    next
      case lt: True
      from 1 [OF True] 
      have ih: "length (filter is_Fetch (snd (fetchLoop fetch base64 imageUrl (attempt + 1))))
                \<le> maxRetries + 1 - (attempt + 1)"
        by simp
      with True lt show ?thesis
        by (subst fetchLoop.simps) (auto simp add: Let_def split: fetch_outcome.splits prod.splits)
    qed
  qed
qed

lemma fetchLoop_success:
  "attempt \<le> maxRetries \<Longrightarrow> attempt_ok (fetch url attempt) \<Longrightarrow>
   fetchLoop fetch base64 url attempt
     = (Inr (Some (base64 (body_of (fetch url attempt)))), [Fetch url attempt])"
  by (subst fetchLoop.simps) (cases "fetch url attempt"; simp add: Let_def)

lemma fetchLoop_retry:
  "attempt < maxRetries \<Longrightarrow> \<not> attempt_ok (fetch url attempt) \<Longrightarrow>
   fetchLoop fetch base64 url attempt
     = (fst (fetchLoop fetch base64 url (attempt + 1)),
        Fetch url attempt # Sleep delayMs # snd (fetchLoop fetch base64 url (attempt + 1)))"
  by (subst fetchLoop.simps) (cases "fetch url attempt"; simp add: Let_def split: prod.splits)

lemma fetchLoop_give_up:
  "attempt = maxRetries \<Longrightarrow> \<not> attempt_ok (fetch url attempt) \<Longrightarrow>
   fetchLoop fetch base64 url attempt
     = (Inl (after_all_retries (failure_message (fetch url attempt))), [Fetch url attempt])"
  by (subst fetchLoop.simps) (cases "fetch url attempt"; simp add: Let_def)


lemma three_attempts_text:
  "after_all_retries msg =
     BadRequestException (''Failed to fetch image for analysis after 3 attempts: '' @ msg)"
  by (simp add: after_all_retries_def maxRetries_def toString_def decimal.simps)

lemma fetch_first:
  assumes "attempt_ok (fetch url 1)"
  shows "fetchImageAsBase64 fetch base64 url
           = (Inr (Some (base64 (body_of (fetch url 1)))), [Fetch url 1])"
  unfolding fetchImageAsBase64_def
  using assms by (simp add: fetchLoop_success maxRetries_def)

lemma fetch_second:
  assumes "\<not> attempt_ok (fetch url 1)" "attempt_ok (fetch url 2)"
  shows "fetchImageAsBase64 fetch base64 url
           = (Inr (Some (base64 (body_of (fetch url 2)))),
              [Fetch url 1, Sleep 2000, Fetch url 2])"
proof -
  have "fetchLoop fetch base64 url 2
          = (Inr (Some (base64 (body_of (fetch url 2)))), [Fetch url 2])"
    using assms(2) by (simp add: fetchLoop_success maxRetries_def)
  moreover have "fetchLoop fetch base64 url 1
          = (fst (fetchLoop fetch base64 url 2),
             Fetch url 1 # Sleep delayMs # snd (fetchLoop fetch base64 url 2))"
    using fetchLoop_retry [of 1 fetch url base64] assms(1)
    by (simp add: maxRetries_def numeral_2_eq_2)
  ultimately show ?thesis
    by (simp add: fetchImageAsBase64_def delayMs_def)
qed

lemma fetch_third:
  assumes "\<not> attempt_ok (fetch url 1)" "\<not> attempt_ok (fetch url 2)"
  shows "fetchImageAsBase64 fetch base64 url
           = (if attempt_ok (fetch url 3)
              then Inr (Some (base64 (body_of (fetch url 3))))
              else Inl (BadRequestException
                     (''Failed to fetch image for analysis after 3 attempts: ''
                        @ failure_message (fetch url 3))),
              [Fetch url 1, Sleep 2000, Fetch url 2, Sleep 2000, Fetch url 3])"
proof -
  have 3: "fetchLoop fetch base64 url 3
          = (if attempt_ok (fetch url 3)
              then Inr (Some (base64 (body_of (fetch url 3))))
              else Inl (BadRequestException
                     (''Failed to fetch image for analysis after 3 attempts: ''
                        @ failure_message (fetch url 3))), [Fetch url 3])"
    by (simp add: fetchLoop_success fetchLoop_give_up maxRetries_def three_attempts_text)
  have "fetchLoop fetch base64 url 2
          = (fst (fetchLoop fetch base64 url 3),
             Fetch url 2 # Sleep delayMs # snd (fetchLoop fetch base64 url 3))"
    using fetchLoop_retry [of 2 fetch url base64] assms(2)
    by (simp add: maxRetries_def)
  with 3 have 2: "fetchLoop fetch base64 url 2
          = (if attempt_ok (fetch url 3)
              then Inr (Some (base64 (body_of (fetch url 3))))
              else Inl (BadRequestException
                     (''Failed to fetch image for analysis after 3 attempts: ''
                        @ failure_message (fetch url 3))),
             [Fetch url 2, Sleep 2000, Fetch url 3])"
    by (simp add: delayMs_def)
  have "fetchLoop fetch base64 url 1
          = (fst (fetchLoop fetch base64 url 2),
             Fetch url 1 # Sleep delayMs # snd (fetchLoop fetch base64 url 2))"
    using fetchLoop_retry [of 1 fetch url base64] assms(1)
    by (simp add: maxRetries_def numeral_2_eq_2)
  with 2 show ?thesis
    by (simp add: fetchImageAsBase64_def delayMs_def)
qed

text \<open>
  C6. \<^verbatim>\<open>fetchImageAsBase64\<close> is total. It makes at most 3 requests, with a sleep of 2000 ms
  between two requests and none elsewhere: one request, or two, or three. It never ends
  without a result. It returns exactly when one of the three attempts succeeds: then the
  result is the base64 text of the body of the first successful attempt \<open>n\<close>, after \<open>n\<close>
  requests. When all three attempts fail it throws \<^verbatim>\<open>BadRequestException\<close> after the third
  request.
\<close>

theorem fetchImageAsBase64_three_attempts:
  "length (filter is_Fetch (snd (fetchImageAsBase64 fetch base64 url))) \<le> 3
   \<and> snd (fetchImageAsBase64 fetch base64 url)
        \<in> {[Fetch url 1],
            [Fetch url 1, Sleep 2000, Fetch url 2],
            [Fetch url 1, Sleep 2000, Fetch url 2, Sleep 2000, Fetch url 3]}
   \<and> fst (fetchImageAsBase64 fetch base64 url) \<noteq> Inr None
   \<and> ((\<exists>s. fst (fetchImageAsBase64 fetch base64 url) = Inr (Some s))
        \<longleftrightarrow> attempt_ok (fetch url 1) \<or> attempt_ok (fetch url 2) \<or> attempt_ok (fetch url 3))
   \<and> (\<forall>s. fst (fetchImageAsBase64 fetch base64 url) = Inr (Some s) \<longrightarrow>
         (\<exists>n. 1 \<le> n \<and> n \<le> 3 \<and> attempt_ok (fetch url n)
              \<and> (\<forall>k. 1 \<le> k \<and> k < n \<longrightarrow> \<not> attempt_ok (fetch url k))
              \<and> s = base64 (body_of (fetch url n))
              \<and> length (filter is_Fetch (snd (fetchImageAsBase64 fetch base64 url))) = n))
   \<and> (\<not> attempt_ok (fetch url 1) \<and> \<not> attempt_ok (fetch url 2) \<and> \<not> attempt_ok (fetch url 3)
        \<longrightarrow> fetchImageAsBase64 fetch base64 url
             = (Inl (BadRequestException
                      (''Failed to fetch image for analysis after 3 attempts: ''
                         @ failure_message (fetch url 3))),
                [Fetch url 1, Sleep 2000, Fetch url 2, Sleep 2000, Fetch url 3]))"
proof -
  let ?R = "fetchImageAsBase64 fetch base64 url"
  consider (first) "attempt_ok (fetch url 1)"
    | (second) "\<not> attempt_ok (fetch url 1)" "attempt_ok (fetch url 2)"
    | (third) "\<not> attempt_ok (fetch url 1)" "\<not> attempt_ok (fetch url 2)" "attempt_ok (fetch url 3)"
    | (none) "\<not> attempt_ok (fetch url 1)" "\<not> attempt_ok (fetch url 2)"
        "\<not> attempt_ok (fetch url 3)"
    by blast
  then show ?thesis
  proof cases
    case first
    note R = fetch_first [where fetch = fetch and url = url, OF first, of base64]
    have "\<exists>n. 1 \<le> n \<and> n \<le> 3 \<and> attempt_ok (fetch url n)
              \<and> (\<forall>k. 1 \<le> k \<and> k < n \<longrightarrow> \<not> attempt_ok (fetch url k))
              \<and> base64 (body_of (fetch url 1)) = base64 (body_of (fetch url n))
              \<and> length (filter is_Fetch [Fetch url 1]) = n"
      using first by (intro exI [of _ 1]) simp
    with first show ?thesis
      unfolding R by simp
  next
    case second
    note R = fetch_second [where fetch = fetch and url = url, OF second, of base64]
    have "\<And>k::nat. 1 \<le> k \<and> k < 2 \<Longrightarrow> k = 1" by arith
    with second(1) have "\<forall>k. 1 \<le> k \<and> k < 2 \<longrightarrow> \<not> attempt_ok (fetch url k)"
      by blast
    with second(2)
    have "\<exists>n. 1 \<le> n \<and> n \<le> 3 \<and> attempt_ok (fetch url n)
              \<and> (\<forall>k. 1 \<le> k \<and> k < n \<longrightarrow> \<not> attempt_ok (fetch url k))
              \<and> base64 (body_of (fetch url 2)) = base64 (body_of (fetch url n))
              \<and> length (filter is_Fetch [Fetch url 1, Sleep 2000, Fetch url 2]) = n"
      by (intro exI [of _ 2]) simp
    with second show ?thesis
      unfolding R by simp
  next
    case third
    note R = fetch_third [where fetch = fetch and url = url, OF third(1,2), of base64]
    have "\<And>k::nat. 1 \<le> k \<and> k < 3 \<Longrightarrow> k = 1 \<or> k = 2" by arith
    with third(1,2) have "\<forall>k. 1 \<le> k \<and> k < 3 \<longrightarrow> \<not> attempt_ok (fetch url k)"
      by blast
    with third(3)
    have "\<exists>n. 1 \<le> n \<and> n \<le> 3 \<and> attempt_ok (fetch url n)
              \<and> (\<forall>k. 1 \<le> k \<and> k < n \<longrightarrow> \<not> attempt_ok (fetch url k))
              \<and> base64 (body_of (fetch url 3)) = base64 (body_of (fetch url n))
              \<and> length (filter is_Fetch
                    [Fetch url 1, Sleep 2000, Fetch url 2, Sleep 2000, Fetch url 3]) = n"
      by (intro exI [of _ 3]) simp
    with third show ?thesis
      unfolding R by simp
  next
    case none
    then show ?thesis
      by (simp add: fetch_third [where fetch = fetch and url = url, OF none(1,2)])
  qed
qed

theorem fetchImageAsBase64_three_attempts_witness:
  "fetchImageAsBase64 dead_fetch length_text ''http://x''
     = (Inl (BadRequestException
               ''Failed to fetch image for analysis after 3 attempts: ETIMEDOUT''),
        [Fetch ''http://x'' 1, Sleep 2000, Fetch ''http://x'' 2, Sleep 2000,
         Fetch ''http://x'' 3])
   \<and> (\<exists>s. fst (fetchImageAsBase64 flaky_fetch length_text ''http://x'') = Inr (Some s))"
proof -
  note d = fetchImageAsBase64_three_attempts [of dead_fetch length_text "''http://x''"]
  note f = fetchImageAsBase64_three_attempts [of flaky_fetch length_text "''http://x''"]
  have "\<not> attempt_ok (dead_fetch ''http://x'' 1) \<and> \<not> attempt_ok (dead_fetch ''http://x'' 2)
        \<and> \<not> attempt_ok (dead_fetch ''http://x'' 3)"
    by (simp add: dead_fetch_def)
  with d have 1: "fetchImageAsBase64 dead_fetch length_text ''http://x''
     = (Inl (BadRequestException
               (''Failed to fetch image for analysis after 3 attempts: ''
                  @ failure_message (dead_fetch ''http://x'' 3))),
        [Fetch ''http://x'' 1, Sleep 2000, Fetch ''http://x'' 2, Sleep 2000,
         Fetch ''http://x'' 3])"
    by blast
  have "attempt_ok (flaky_fetch ''http://x'' 3)"
    by (simp add: flaky_fetch_def)
  with f have 2: "\<exists>s. fst (fetchImageAsBase64 flaky_fetch length_text ''http://x'') = Inr (Some s)"
    by blast
  from 1 2 show ?thesis
    by (simp add: dead_fetch_def)
qed

subsection \<open>What each operation leaves unchanged\<close>
















subsection \<open>Two interleaved unlikes\<close>

lemma auras_test_upload_db:
  "map aura_id (auras test_upload_db) = [''a2''] \<and> map aura_likes (auras test_upload_db) = [0]"
  by (simp add: test_upload_db_def testUploadImage_def uploadImage_def empty_db_def
      user_findUnique_id_def user_create_def image_create_def aura_create_def
      generateAuraFromBuffer_def CloudinaryService_uploadImage_def working_env_def
      sample_upload_config_def png_file_def sample_parse_def sample_uploader_def
      falsy_def int4_def Let_def)

text \<open>
  C8. An aura with one like is read by two \<^verbatim>\<open>unlikeAura\<close> requests before either of them
  updates it. Each request computes a decrement of 1 from the count it read, both updates
  succeed, and the aura is left with -1 likes, in a database the services can reach.
\<close>

theorem unlikeAura_interleaved_negative:
  "reachable liked_db
   \<and> map aura_likes (auras liked_db) = [1]
   \<and> aura_findUnique ''a2'' liked_db = Some read_aura
   \<and> fst (unlikeAura_update read_aura ''a2'' liked_db)
       = Inr \<lparr>lr_message = ''Aura unliked successfully'', lr_liked = False,
              lr_totalLikes = 0\<rparr>
   \<and> fst (unlikeAura_update read_aura ''a2'' (snd (unlikeAura_update read_aura ''a2'' liked_db)))
       = Inr \<lparr>lr_message = ''Aura unliked successfully'', lr_liked = False,
              lr_totalLikes = - 1\<rparr>
   \<and> map aura_likes (auras twice_unliked_db) = [- 1]
   \<and> reachable twice_unliked_db
   \<and> \<not> likes_nonnegative twice_unliked_db"
proof -
  obtain a where a: "auras test_upload_db = [a]" "aura_id a = ''a2''" "aura_likes a = 0"
    using auras_test_upload_db by (cases "auras test_upload_db") auto
  have l: "auras liked_db = [a\<lparr>aura_likes := 1\<rparr>]"
    by (simp add: liked_db_def likeAura_def aura_update_likes_def aura_findUnique_def a int4_def)
  have ra: "read_aura = a\<lparr>aura_likes := 1\<rparr>"
    by (simp add: read_aura_def l)
  have f: "aura_findUnique ''a2'' liked_db = Some read_aura"
    by (simp add: aura_findUnique_def l ra a)
  have u1: "unlikeAura_update read_aura ''a2'' liked_db
      = (Inr \<lparr>lr_message = ''Aura unliked successfully'', lr_liked = False,
               lr_totalLikes = 0\<rparr>,
         liked_db\<lparr>auras := [a\<lparr>aura_likes := 0\<rparr>]\<rparr>)"
    by (simp add: unlikeAura_update_def aura_update_likes_def aura_findUnique_def l ra a
        int4_def)
  have u2: "unlikeAura_update read_aura ''a2'' (liked_db\<lparr>auras := [a\<lparr>aura_likes := 0\<rparr>]\<rparr>)
      = (Inr \<lparr>lr_message = ''Aura unliked successfully'', lr_liked = False,
               lr_totalLikes = - 1\<rparr>,
         liked_db\<lparr>auras := [a\<lparr>aura_likes := - 1\<rparr>]\<rparr>)"
    by (simp add: unlikeAura_update_def aura_update_likes_def aura_findUnique_def ra a
        int4_def)
  have t: "twice_unliked_db = liked_db\<lparr>auras := [a\<lparr>aura_likes := - 1\<rparr>]\<rparr>"
    by (simp add: twice_unliked_db_def u1 u2)
  have r0: "reachable test_upload_db"
    unfolding test_upload_db_def by (rule r_testUploadImage [OF r_empty])
  have r1: "reachable liked_db"
    unfolding liked_db_def by (rule r_likeAura [OF r0])
  have r2: "reachable (snd (unlikeAura_update read_aura ''a2'' liked_db))"
    by (rule r_unlikeAura_update [OF r1 f r1])
  have r3: "reachable twice_unliked_db"
    unfolding twice_unliked_db_def by (rule r_unlikeAura_update [OF r1 f r2])
  have n: "\<not> likes_nonnegative twice_unliked_db"
    by (simp add: likes_nonnegative_def t)
  have m1: "map aura_likes (auras liked_db) = [1]"
    by (simp add: l)
  have m2: "map aura_likes (auras twice_unliked_db) = [- 1]"
    by (simp add: t)
  have f1: "fst (unlikeAura_update read_aura ''a2'' liked_db)
       = Inr \<lparr>lr_message = ''Aura unliked successfully'', lr_liked = False,
              lr_totalLikes = 0\<rparr>"
    by (simp add: u1)
  have f2: "fst (unlikeAura_update read_aura ''a2''
                   (snd (unlikeAura_update read_aura ''a2'' liked_db)))
       = Inr \<lparr>lr_message = ''Aura unliked successfully'', lr_liked = False,
              lr_totalLikes = - 1\<rparr>"
    by (simp add: u1 u2)
  from r1 m1 f f1 f2 m2 r3 n show ?thesis
    by blast
qed

subsection \<open>The uniqueness constraints\<close>











end
